theory Spec2Isabelle
  imports Main "HOL-Library.Word"
begin

section \<open>JavaScript values\<close>

text \<open>
  A JavaScript string is a sequence of 16-bit code units. String literals of the source
  are ASCII; \<open>lit\<close> turns such a literal into its code units.
\<close>

type_synonym code_unit = "16 word"
type_synonym jsstring = "code_unit list"

definition lit :: "string \<Rightarrow> jsstring" where
  "lit s = map (\<lambda>c. word_of_nat (of_char c)) s"

text \<open>
  Primitive values, and the values a parsed JSON body or a collaborator result can hold.
  Numbers are integers here: the handlers only test a number for being zero.
  An object is the list of its properties in insertion order.
\<close>

datatype jsprim = JUndefined | JNull | JBool bool | JNum int | JStr jsstring

datatype jsval = Prim jsprim | Arr "jsval list" | Obj "(jsstring \<times> jsval) list"

type_synonym jsobject = "(jsstring \<times> jsval) list"

abbreviation undefined_val :: jsval where
  "undefined_val \<equiv> Prim JUndefined"

definition str :: "string \<Rightarrow> jsval" where
  "str s = Prim (JStr (lit s))"

text \<open>Property read \<open>o.k\<close>: a property the object does not have reads as undefined.\<close>

fun get_prop :: "jsobject \<Rightarrow> jsstring \<Rightarrow> jsval" where
  "get_prop [] k = undefined_val"
| "get_prop ((k', v) # ps) k = (if k' = k then v else get_prop ps k)"

fun has_prop :: "jsobject \<Rightarrow> jsstring \<Rightarrow> bool" where
  "has_prop [] k = False"
| "has_prop ((k', v) # ps) k = (if k' = k then True else has_prop ps k)"

text \<open>
  Property write \<open>o[k] = v\<close>: an existing property keeps its place, a new one is
  appended.
\<close>

fun set_prop :: "jsobject \<Rightarrow> jsstring \<Rightarrow> jsval \<Rightarrow> jsobject" where
  "set_prop [] k v = [(k, v)]"
| "set_prop ((k', v') # ps) k v = (if k' = k then (k, v) # ps else (k', v') # set_prop ps k v)"

text \<open>Truthiness (\<open>!x\<close> is its negation) and \<open>a || b\<close>.\<close>

fun truthy_prim :: "jsprim \<Rightarrow> bool" where
  "truthy_prim JUndefined = False"
| "truthy_prim JNull = False"
| "truthy_prim (JBool b) = b"
| "truthy_prim (JNum n) = (n \<noteq> 0)"
| "truthy_prim (JStr s) = (s \<noteq> [])"

fun truthy :: "jsval \<Rightarrow> bool" where
  "truthy (Prim p) = truthy_prim p"
| "truthy (Arr xs) = True"
| "truthy (Obj ps) = True"

definition or_prim :: "jsprim \<Rightarrow> jsprim \<Rightarrow> jsprim" where
  "or_prim a b = (if truthy_prim a then a else b)"

definition or_val :: "jsval \<Rightarrow> jsval \<Rightarrow> jsval" where
  "or_val a b = (if truthy a then a else b)"

text \<open>
  What a \<open>try\<close> block can catch: a TypeError raised by the language itself (a method
  call on a value that has no such method), or the rejection of a collaborator call,
  which carries the value of its \<open>code\<close> property.
\<close>

datatype js_error = TypeError | Failure jsval

fun error_code :: "js_error \<Rightarrow> jsval" where
  "error_code TypeError = undefined_val"
| "error_code (Failure c) = c"

subsection \<open>String methods\<close>

definition startsWith :: "jsstring \<Rightarrow> jsstring \<Rightarrow> bool" where
  "startsWith s p = (take (length p) s = p)"

text \<open>
  \<open>s.split(sep)\<close> for a non-empty separator: \<open>cur\<close> holds, reversed, the code
  units read since the last separator.
\<close>

function split_at :: "jsstring \<Rightarrow> jsstring \<Rightarrow> jsstring \<Rightarrow> jsstring list" where
  "split_at sep cur s =
     (if sep \<noteq> [] \<and> s \<noteq> [] \<and> startsWith s sep
      then rev cur # split_at sep [] (drop (length sep) s)
      else (case s of [] \<Rightarrow> [rev cur] | x # xs \<Rightarrow> split_at sep (x # cur) xs))"
  by pat_completeness auto
termination
  by (relation "measure (\<lambda>(sep, cur, s). length s)") auto

text \<open>\<open>s.split('')\<close> gives the code units of \<open>s\<close>, each a string of its own.\<close>

definition split :: "jsstring \<Rightarrow> jsstring \<Rightarrow> jsstring list" where
  "split s sep = (if sep = [] then map (\<lambda>u. [u]) s else split_at sep [] s)"

definition reverse :: "'a list \<Rightarrow> 'a list" where
  "reverse xs = rev xs"

definition join :: "jsstring list \<Rightarrow> jsstring \<Rightarrow> jsstring" where
  "join xs sep = (case xs of [] \<Rightarrow> [] | y # ys \<Rightarrow> y @ concat (map (\<lambda>z. sep @ z) ys))"

text \<open>Array read \<open>xs[i]\<close>: out of range reads as undefined.\<close>

definition index :: "jsstring list \<Rightarrow> nat \<Rightarrow> jsval" where
  "index xs i = (if i < length xs then Prim (JStr (xs ! i)) else undefined_val)"

text \<open>
  Method calls on a value of any type. Only a string has \<open>startsWith\<close> and
  \<open>split\<close>; on any other value that passed a truthiness test the call raises a
  TypeError (the property is undefined, or not a function), as it does on undefined and
  null.
\<close>

fun call_startsWith :: "jsval \<Rightarrow> jsstring \<Rightarrow> js_error + bool" where
  "call_startsWith (Prim (JStr s)) p = Inr (startsWith s p)"
| "call_startsWith v p = Inl TypeError"

fun call_split :: "jsval \<Rightarrow> jsstring \<Rightarrow> js_error + jsstring list" where
  "call_split (Prim (JStr s)) sep = Inr (split s sep)"
| "call_split v sep = Inl TypeError"

section \<open>Responses\<close>

record response =
  status :: nat
  body :: jsobject

text \<open>\<open>res.status(n).json(o)\<close>, and \<open>res.json(o)\<close>, which leaves the status at 200.\<close>

definition status_json :: "nat \<Rightarrow> jsobject \<Rightarrow> response" where
  "status_json n obj = \<lparr>status = n, body = obj\<rparr>"

definition json :: "jsobject \<Rightarrow> response" where
  "json obj = status_json 200 obj"

text \<open>
  The envelope of a failure: the body has a string \<open>error\<close> and a string
  \<open>message\<close>.
\<close>

fun is_string :: "jsval \<Rightarrow> bool" where
  "is_string (Prim (JStr s)) = True"
| "is_string v = False"

definition failure_envelope :: "response \<Rightarrow> bool" where
  "failure_envelope r \<longleftrightarrow>
     is_string (get_prop (body r) (lit ''error'')) \<and> is_string (get_prop (body r) (lit ''message''))"

section \<open>The palindrome endpoints (index.js)\<close>

text \<open>\<open>word.split('').reverse().join('')\<close>, on a string.\<close>

definition palindrome_of :: "jsstring \<Rightarrow> jsstring" where
  "palindrome_of word = join (reverse (split word [])) []"

text \<open>The error-handling middleware: what an exception thrown by a handler ends in.\<close>

definition error_middleware :: "js_error \<Rightarrow> response" where
  "error_middleware err = status_json 500 [(lit ''error'', str ''Something went wrong!'')]"

text \<open>
  \<open>POST /palindrome\<close>, from the body's \<open>word\<close>. The handler has no \<open>try\<close>: the
  TypeError of \<open>word.split\<close> on a truthy value that is not a string reaches the
  error-handling middleware.
\<close>

definition post_palindrome_handler :: "jsobject \<Rightarrow> js_error + response" where
  "post_palindrome_handler req_body =
     (let word = get_prop req_body (lit ''word'') in
      if \<not> truthy word then Inr (status_json 400 [(lit ''error'', str ''Please provide a word'')])
      else (case call_split word [] of
              Inl e \<Rightarrow> Inl e
            | Inr units \<Rightarrow>
                let palindrome = join (reverse units) [] in
                Inr (json [(lit ''original'', word), (lit ''palindrome'', Prim (JStr palindrome))])))"

definition post_palindrome :: "jsobject \<Rightarrow> response" where
  "post_palindrome req_body =
     (case post_palindrome_handler req_body of Inl e \<Rightarrow> error_middleware e | Inr r \<Rightarrow> r)"

text \<open>\<open>GET /palindrome/:word\<close>: the path parameter is a string.\<close>

definition get_palindrome :: "jsstring \<Rightarrow> response" where
  "get_palindrome word =
     (let palindrome = palindrome_of word in
      json [(lit ''original'', Prim (JStr word)), (lit ''palindrome'', Prim (JStr palindrome))])"

section \<open>The collaborator (config/firebase.js)\<close>

text \<open>
  \<open>auth\<close> and \<open>db\<close> are handles of an external service. Each of their methods is a
  parameter here: a function of the arguments and of the collaborator's state \<open>'w\<close>,
  which either rejects (\<open>Inl\<close>) or resolves (\<open>Inr\<close>) and leaves a new state.
  \<open>doc_get\<close>, \<open>doc_set\<close>, \<open>doc_update\<close> and \<open>doc_delete\<close> are
  \<open>db.collection('users').doc(id)\<close> followed by \<open>get\<close>, \<open>set\<close>, \<open>update\<close>
  and \<open>delete\<close>; \<open>toISOString\<close> is \<open>new Date().toISOString()\<close>.
  What \<open>verifyIdToken\<close> and \<open>createUser\<close> resolve to is an object (the decoded
  token, the user record); a document snapshot has its \<open>exists\<close> flag and its
  \<open>data()\<close>.
\<close>

record snapshot =
  snap_exists :: bool
  snap_data :: jsval

record 'w collab =
  verifyIdToken :: "jsval \<Rightarrow> 'w \<Rightarrow> (js_error + jsobject) \<times> 'w"
  createUser :: "jsobject \<Rightarrow> 'w \<Rightarrow> (js_error + jsobject) \<times> 'w"
  updateUser :: "jsval \<Rightarrow> jsobject \<Rightarrow> 'w \<Rightarrow> (js_error + unit) \<times> 'w"
  deleteUser :: "jsval \<Rightarrow> 'w \<Rightarrow> (js_error + unit) \<times> 'w"
  doc_get :: "jsval \<Rightarrow> 'w \<Rightarrow> (js_error + snapshot) \<times> 'w"
  doc_set :: "jsval \<Rightarrow> jsobject \<Rightarrow> 'w \<Rightarrow> (js_error + unit) \<times> 'w"
  doc_update :: "jsval \<Rightarrow> jsobject \<Rightarrow> 'w \<Rightarrow> (js_error + unit) \<times> 'w"
  doc_delete :: "jsval \<Rightarrow> 'w \<Rightarrow> (js_error + unit) \<times> 'w"
  toISOString :: "'w \<Rightarrow> jsstring \<times> 'w"

text \<open>The collaborator calls a request makes, in order, with their arguments.\<close>

datatype call =
    VerifyIdToken jsval
  | CreateUser jsobject
  | UpdateUser jsval jsobject
  | DeleteUser jsval
  | DocGet jsval
  | DocSet jsval jsobject
  | DocUpdate jsval jsobject
  | DocDelete jsval

record 'w st =
  world :: 'w
  calls :: "call list"

definition perform ::
  "call \<Rightarrow> ('w \<Rightarrow> (js_error + 'a) \<times> 'w) \<Rightarrow> 'w st \<Rightarrow> (js_error + 'a) \<times> 'w st" where
  "perform c f s =
     (case f (world s) of (r, w') \<Rightarrow> (r, \<lparr>world = w', calls = calls s @ [c]\<rparr>))"

definition now :: "'w collab \<Rightarrow> 'w st \<Rightarrow> jsstring \<times> 'w st" where
  "now c s = (case toISOString c (world s) of (t, w') \<Rightarrow> (t, s\<lparr>world := w'\<rparr>))"


section \<open>The authorization gate (middleware/auth.js)\<close>

definition bearer :: jsstring where
  "bearer = lit ''Bearer ''"

text \<open>
  The outcome of a middleware: it has sent a response, or it has called \<open>next()\<close>
  after setting \<open>req.user\<close>.
\<close>

datatype gate_result = Responded response | Next jsobject

definition no_token :: response where
  "no_token = status_json 401
     [(lit ''error'', str ''No token provided''),
      (lit ''message'', str ''Authorization header with Bearer token is required'')]"

definition invalid_token :: response where
  "invalid_token = status_json 401
     [(lit ''error'', str ''Invalid token''),
      (lit ''message'', str ''The provided token is invalid or expired'')]"

definition authentication_error :: response where
  "authentication_error = status_json 500
     [(lit ''error'', str ''Authentication error''),
      (lit ''message'', str ''An error occurred during authentication'')]"

definition user_of_token :: "jsobject \<Rightarrow> jsobject" where
  "user_of_token decodedToken =
     [(lit ''uid'', get_prop decodedToken (lit ''uid'')),
      (lit ''email'', get_prop decodedToken (lit ''email'')),
      (lit ''emailVerified'', get_prop decodedToken (lit ''email_verified'')),
      (lit ''name'', get_prop decodedToken (lit ''name'')),
      (lit ''picture'', get_prop decodedToken (lit ''picture''))]"

text \<open>
  The body of the outer \<open>try\<close> of \<open>verifyToken\<close>, from the value of
  \<open>req.headers.authorization\<close>. \<open>Inl\<close> is an exception that leaves it; the inner
  \<open>try\<close> around \<open>auth.verifyIdToken\<close> catches every rejection of that call.
\<close>

definition verifyToken_try ::
  "'w collab \<Rightarrow> jsval \<Rightarrow> 'w st \<Rightarrow> (js_error + gate_result) \<times> 'w st" where
  "verifyToken_try c authHeader s =
     (if \<not> truthy authHeader then (Inr (Responded no_token), s)
      else (case call_startsWith authHeader bearer of
              Inl e \<Rightarrow> (Inl e, s)
            | Inr False \<Rightarrow> (Inr (Responded no_token), s)
            | Inr True \<Rightarrow>
                (case call_split authHeader bearer of
                   Inl e \<Rightarrow> (Inl e, s)
                 | Inr parts \<Rightarrow>
                     let idToken = index parts 1 in
                     (case perform (VerifyIdToken idToken) (verifyIdToken c idToken) s of
                        (Inl error, s') \<Rightarrow> (Inr (Responded invalid_token), s')
                      | (Inr decodedToken, s') \<Rightarrow> (Inr (Next (user_of_token decodedToken)), s')))))"

definition verifyToken :: "'w collab \<Rightarrow> jsval \<Rightarrow> 'w st \<Rightarrow> gate_result \<times> 'w st" where
  "verifyToken c authHeader s =
     (case verifyToken_try c authHeader s of
        (Inl error, s') \<Rightarrow> (Responded authentication_error, s')
      | (Inr r, s') \<Rightarrow> (r, s'))"

section \<open>The account routes (routes/auth.js)\<close>

subsection \<open>POST /auth/register\<close>

text \<open>
  The four fields the handler reads from the body. They range over the primitive values
  (a field the body does not have is undefined).
\<close>

record register_body =
  reg_email :: jsprim
  reg_password :: jsprim
  reg_displayName :: jsprim
  reg_photoURL :: jsprim

text \<open>
  \<open>x.length < n\<close> on a primitive: a string has a length; a boolean and a number have
  none, and \<open>undefined < n\<close> is false; reading a property of undefined or null raises.
\<close>

fun length_less :: "jsprim \<Rightarrow> nat \<Rightarrow> js_error + bool" where
  "length_less JUndefined n = Inl TypeError"
| "length_less JNull n = Inl TypeError"
| "length_less (JBool b) n = Inr False"
| "length_less (JNum k) n = Inr False"
| "length_less (JStr s) n = Inr (length s < n)"

definition missing_fields :: response where
  "missing_fields = status_json 400
     [(lit ''error'', str ''Missing required fields''),
      (lit ''message'', str ''Email and password are required'')]"

definition password_too_short :: response where
  "password_too_short = status_json 400
     [(lit ''error'', str ''Password too short''),
      (lit ''message'', str ''Password must be at least 6 characters long'')]"

definition user_exists :: response where
  "user_exists = status_json 409
     [(lit ''error'', str ''User already exists''),
      (lit ''message'', str ''An account with this email already exists'')]"

definition registration_failed :: response where
  "registration_failed = status_json 500
     [(lit ''error'', str ''Registration failed''),
      (lit ''message'', str ''An error occurred during registration'')]"

definition createUser_args :: "register_body \<Rightarrow> jsobject" where
  "createUser_args req_body =
     [(lit ''email'', Prim (reg_email req_body)),
      (lit ''password'', Prim (reg_password req_body)),
      (lit ''displayName'', Prim (or_prim (reg_displayName req_body) JUndefined)),
      (lit ''photoURL'', Prim (or_prim (reg_photoURL req_body) JUndefined)),
      (lit ''emailVerified'', Prim (JBool False))]"

definition userData_of :: "register_body \<Rightarrow> jsobject \<Rightarrow> jsstring \<Rightarrow> jsstring \<Rightarrow> jsobject" where
  "userData_of req_body userRecord createdAt lastLoginAt =
     [(lit ''uid'', get_prop userRecord (lit ''uid'')),
      (lit ''email'', get_prop userRecord (lit ''email'')),
      (lit ''displayName'', Prim (or_prim (reg_displayName req_body) JNull)),
      (lit ''photoURL'', Prim (or_prim (reg_photoURL req_body) JNull)),
      (lit ''emailVerified'', Prim (JBool False)),
      (lit ''createdAt'', Prim (JStr createdAt)),
      (lit ''lastLoginAt'', Prim (JStr lastLoginAt)),
      (lit ''profile'', Obj [(lit ''bio'', str []), (lit ''preferences'', Obj [])])]"

definition user_created :: "jsobject \<Rightarrow> response" where
  "user_created userRecord = status_json 201
     [(lit ''message'', str ''User created successfully''),
      (lit ''user'', Obj
         [(lit ''uid'', get_prop userRecord (lit ''uid'')),
          (lit ''email'', get_prop userRecord (lit ''email'')),
          (lit ''displayName'', or_val (get_prop userRecord (lit ''displayName'')) (Prim JNull)),
          (lit ''photoURL'', or_val (get_prop userRecord (lit ''photoURL'')) (Prim JNull)),
          (lit ''emailVerified'', get_prop userRecord (lit ''emailVerified''))])]"

text \<open>The body of the inner \<open>try\<close>: create the principal, then write the profile document.\<close>

definition register_create ::
  "'w collab \<Rightarrow> register_body \<Rightarrow> 'w st \<Rightarrow> (js_error + response) \<times> 'w st" where
  "register_create c req_body s =
     (case perform (CreateUser (createUser_args req_body)) (createUser c (createUser_args req_body)) s of
        (Inl error, s1) \<Rightarrow> (Inl error, s1)
      | (Inr userRecord, s1) \<Rightarrow>
          (case now c s1 of (createdAt, s2) \<Rightarrow>
           (case now c s2 of (lastLoginAt, s3) \<Rightarrow>
              let userData = userData_of req_body userRecord createdAt lastLoginAt;
                  uid = get_prop userRecord (lit ''uid'')
              in (case perform (DocSet uid userData) (doc_set c uid userData) s3 of
                    (Inl error, s4) \<Rightarrow> (Inl error, s4)
                  | (Inr done, s4) \<Rightarrow> (Inr (user_created userRecord), s4)))))"

text \<open>The body of the outer \<open>try\<close>; the inner \<open>catch\<close> throws again what is not a conflict.\<close>

definition register_try ::
  "'w collab \<Rightarrow> register_body \<Rightarrow> 'w st \<Rightarrow> (js_error + response) \<times> 'w st" where
  "register_try c req_body s =
     (let email = reg_email req_body; password = reg_password req_body in
      if \<not> truthy_prim email \<or> \<not> truthy_prim password then (Inr missing_fields, s)
      else (case length_less password 6 of
              Inl e \<Rightarrow> (Inl e, s)
            | Inr True \<Rightarrow> (Inr password_too_short, s)
            | Inr False \<Rightarrow>
                (case register_create c req_body s of
                   (Inl error, s') \<Rightarrow>
                     if error_code error = str ''auth/email-already-exists''
                     then (Inr user_exists, s') else (Inl error, s')
                 | (Inr r, s') \<Rightarrow> (Inr r, s'))))"

definition register :: "'w collab \<Rightarrow> register_body \<Rightarrow> 'w st \<Rightarrow> response \<times> 'w st" where
  "register c req_body s =
     (case register_try c req_body s of
        (Inl error, s') \<Rightarrow> (registration_failed, s')
      | (Inr r, s') \<Rightarrow> (r, s'))"

subsection \<open>GET /auth/user\<close>

definition user_not_found :: response where
  "user_not_found = status_json 404
     [(lit ''error'', str ''User not found''),
      (lit ''message'', str ''User profile not found in database'')]"

definition get_user_failed :: response where
  "get_user_failed = status_json 500
     [(lit ''error'', str ''Failed to get user''),
      (lit ''message'', str ''An error occurred while fetching user data'')]"

definition get_user_try :: "'w collab \<Rightarrow> jsobject \<Rightarrow> 'w st \<Rightarrow> (js_error + response) \<times> 'w st" where
  "get_user_try c user s =
     (let uid = get_prop user (lit ''uid'') in
      case perform (DocGet uid) (doc_get c uid) s of
        (Inl error, s') \<Rightarrow> (Inl error, s')
      | (Inr userDoc, s') \<Rightarrow>
          if \<not> snap_exists userDoc then (Inr user_not_found, s')
          else (Inr (json [(lit ''user'', snap_data userDoc)]), s'))"

definition get_user :: "'w collab \<Rightarrow> jsobject \<Rightarrow> 'w st \<Rightarrow> response \<times> 'w st" where
  "get_user c user s =
     (case get_user_try c user s of
        (Inl error, s') \<Rightarrow> (get_user_failed, s')
      | (Inr r, s') \<Rightarrow> (r, s'))"

subsection \<open>PUT /auth/user\<close>

definition update_failed :: response where
  "update_failed = status_json 500
     [(lit ''error'', str ''Failed to update user''),
      (lit ''message'', str ''An error occurred while updating user data'')]"

text \<open>\<open>if (v !== undefined) { obj[k] = v; }\<close>\<close>

definition assign_if_defined :: "jsobject \<Rightarrow> jsstring \<Rightarrow> jsval \<Rightarrow> jsobject" where
  "assign_if_defined obj k v = (if v \<noteq> undefined_val then set_prop obj k v else obj)"

definition authUpdates_of :: "jsobject \<Rightarrow> jsobject" where
  "authUpdates_of req_body =
     (let authUpdates = [];
          authUpdates = assign_if_defined authUpdates (lit ''displayName'') (get_prop req_body (lit ''displayName''));
          authUpdates = assign_if_defined authUpdates (lit ''photoURL'') (get_prop req_body (lit ''photoURL''))
      in authUpdates)"

definition updates_of :: "jsobject \<Rightarrow> jsstring \<Rightarrow> jsobject" where
  "updates_of req_body lastUpdatedAt =
     (let updates = [(lit ''lastUpdatedAt'', Prim (JStr lastUpdatedAt))];
          updates = assign_if_defined updates (lit ''displayName'') (get_prop req_body (lit ''displayName''));
          updates = assign_if_defined updates (lit ''photoURL'') (get_prop req_body (lit ''photoURL''));
          updates = assign_if_defined updates (lit ''profile.bio'') (get_prop req_body (lit ''bio''));
          updates = assign_if_defined updates (lit ''profile.preferences'') (get_prop req_body (lit ''preferences''))
      in updates)"

definition profile_updated :: "snapshot \<Rightarrow> response" where
  "profile_updated userDoc =
     json [(lit ''message'', str ''Profile updated successfully''), (lit ''user'', snap_data userDoc)]"

definition put_user_try ::
  "'w collab \<Rightarrow> jsobject \<Rightarrow> jsobject \<Rightarrow> 'w st \<Rightarrow> (js_error + response) \<times> 'w st" where
  "put_user_try c user req_body s =
     (let uid = get_prop user (lit ''uid'') in
      case now c s of (lastUpdatedAt, s0) \<Rightarrow>
        let authUpdates = authUpdates_of req_body;
            updates = updates_of req_body lastUpdatedAt
        in (case (if 0 < length (map fst authUpdates)
                  then perform (UpdateUser uid authUpdates) (updateUser c uid authUpdates) s0
                  else (Inr (), s0)) of
              (Inl error, s1) \<Rightarrow> (Inl error, s1)
            | (Inr done, s1) \<Rightarrow>
                (case perform (DocUpdate uid updates) (doc_update c uid updates) s1 of
                   (Inl error, s2) \<Rightarrow> (Inl error, s2)
                 | (Inr done, s2) \<Rightarrow>
                     (case perform (DocGet uid) (doc_get c uid) s2 of
                        (Inl error, s3) \<Rightarrow> (Inl error, s3)
                      | (Inr userDoc, s3) \<Rightarrow>
                          (Inr (profile_updated userDoc), s3)))))"

definition put_user :: "'w collab \<Rightarrow> jsobject \<Rightarrow> jsobject \<Rightarrow> 'w st \<Rightarrow> response \<times> 'w st" where
  "put_user c user req_body s =
     (case put_user_try c user req_body s of
        (Inl error, s') \<Rightarrow> (update_failed, s')
      | (Inr r, s') \<Rightarrow> (r, s'))"

subsection \<open>DELETE /auth/user\<close>

definition delete_failed :: response where
  "delete_failed = status_json 500
     [(lit ''error'', str ''Failed to delete user''),
      (lit ''message'', str ''An error occurred while deleting user account'')]"

definition delete_user_try :: "'w collab \<Rightarrow> jsobject \<Rightarrow> 'w st \<Rightarrow> (js_error + response) \<times> 'w st" where
  "delete_user_try c user s =
     (let uid = get_prop user (lit ''uid'') in
      case perform (DocDelete uid) (doc_delete c uid) s of
        (Inl error, s1) \<Rightarrow> (Inl error, s1)
      | (Inr done, s1) \<Rightarrow>
          (case perform (DeleteUser uid) (deleteUser c uid) s1 of
             (Inl error, s2) \<Rightarrow> (Inl error, s2)
           | (Inr done, s2) \<Rightarrow>
               (Inr (json [(lit ''message'', str ''Account deleted successfully'')]), s2)))"

definition delete_user :: "'w collab \<Rightarrow> jsobject \<Rightarrow> 'w st \<Rightarrow> response \<times> 'w st" where
  "delete_user c user s =
     (case delete_user_try c user s of
        (Inl error, s') \<Rightarrow> (delete_failed, s')
      | (Inr r, s') \<Rightarrow> (r, s'))"

subsection \<open>The protected routes\<close>

text \<open>
  \<open>router.get('/user', verifyToken, handler)\<close>: the handler runs when the gate calls
  \<open>next()\<close>, on the request the gate has put \<open>req.user\<close> on, and not otherwise.
\<close>

definition protected ::
  "'w collab \<Rightarrow> (jsobject \<Rightarrow> 'w st \<Rightarrow> response \<times> 'w st) \<Rightarrow> jsval \<Rightarrow> 'w st \<Rightarrow> response \<times> 'w st" where
  "protected c handler authHeader s =
     (case verifyToken c authHeader s of
        (Responded r, s') \<Rightarrow> (r, s')
      | (Next user, s') \<Rightarrow> handler user s')"

definition route_get_user :: "'w collab \<Rightarrow> jsval \<Rightarrow> 'w st \<Rightarrow> response \<times> 'w st" where
  "route_get_user c authHeader s = protected c (get_user c) authHeader s"

definition route_put_user :: "'w collab \<Rightarrow> jsval \<Rightarrow> jsobject \<Rightarrow> 'w st \<Rightarrow> response \<times> 'w st" where
  "route_put_user c authHeader req_body s =
     protected c (\<lambda>user. put_user c user req_body) authHeader s"

definition route_delete_user :: "'w collab \<Rightarrow> jsval \<Rightarrow> 'w st \<Rightarrow> response \<times> 'w st" where
  "route_delete_user c authHeader s = protected c (delete_user c) authHeader s"

subsection \<open>POST /auth/verify-token\<close>

definition missing_token :: response where
  "missing_token = status_json 400
     [(lit ''error'', str ''Missing token''),
      (lit ''message'', str ''ID token is required'')]"

definition token_valid :: "jsobject \<Rightarrow> response" where
  "token_valid decodedToken = json
     [(lit ''valid'', Prim (JBool True)),
      (lit ''user'', Obj
         [(lit ''uid'', get_prop decodedToken (lit ''uid'')),
          (lit ''email'', get_prop decodedToken (lit ''email'')),
          (lit ''emailVerified'', get_prop decodedToken (lit ''email_verified''))])]"

definition token_invalid :: response where
  "token_invalid = status_json 401
     [(lit ''valid'', Prim (JBool False)),
      (lit ''error'', str ''Invalid token''),
      (lit ''message'', str ''The provided token is invalid or expired'')]"

definition verification_failed :: response where
  "verification_failed = status_json 500
     [(lit ''error'', str ''Verification failed''),
      (lit ''message'', str ''An error occurred during token verification'')]"

definition verify_token_try ::
  "'w collab \<Rightarrow> jsobject \<Rightarrow> 'w st \<Rightarrow> (js_error + response) \<times> 'w st" where
  "verify_token_try c req_body s =
     (let idToken = get_prop req_body (lit ''idToken'') in
      if \<not> truthy idToken then (Inr missing_token, s)
      else (case perform (VerifyIdToken idToken) (verifyIdToken c idToken) s of
              (Inr decodedToken, s') \<Rightarrow> (Inr (token_valid decodedToken), s')
            | (Inl error, s') \<Rightarrow> (Inr token_invalid, s')))"

definition verify_token :: "'w collab \<Rightarrow> jsobject \<Rightarrow> 'w st \<Rightarrow> response \<times> 'w st" where
  "verify_token c req_body s =
     (case verify_token_try c req_body s of
        (Inl error, s') \<Rightarrow> (verification_failed, s')
      | (Inr r, s') \<Rightarrow> (r, s'))"

section \<open>A collaborator for the examples\<close>

text \<open>
  A small stand-in for the external service, used to run the handlers on concrete
  requests: it knows one token, refuses one e-mail address as taken and one as malformed,
  and fails to write the profile document of one other.
\<close>

definition example_token :: jsobject where
  "example_token =
     [(lit ''uid'', str ''u1''),
      (lit ''email'', str ''ann@example.com''),
      (lit ''email_verified'', Prim (JBool True))]"

definition example_time :: jsstring where
  "example_time = lit ''2024-01-01T00:00:00.000Z''"

definition example_doc :: jsval where
  "example_doc = Obj [(lit ''uid'', str ''u1''), (lit ''email'', str ''ann@example.com'')]"

definition example_collab :: "unit collab" where
  "example_collab =
     \<lparr>verifyIdToken = (\<lambda>idToken w.
          if idToken = str ''good'' then (Inr example_token, w)
          else (Inl (Failure (str ''auth/argument-error'')), w)),
      createUser = (\<lambda>props w.
          if get_prop props (lit ''email'') = str ''taken@example.com''
          then (Inl (Failure (str ''auth/email-already-exists'')), w)
          else if get_prop props (lit ''email'') = str ''nobody''
          then (Inl (Failure (str ''auth/invalid-email'')), w)
          else (Inr [(lit ''uid'', str ''u2''),
                     (lit ''email'', get_prop props (lit ''email'')),
                     (lit ''displayName'', get_prop props (lit ''displayName'')),
                     (lit ''photoURL'', get_prop props (lit ''photoURL'')),
                     (lit ''emailVerified'', get_prop props (lit ''emailVerified''))], w)),
      updateUser = (\<lambda>uid props w. (Inr (), w)),
      deleteUser = (\<lambda>uid w. (Inr (), w)),
      doc_get = (\<lambda>uid w. (Inr \<lparr>snap_exists = True, snap_data = example_doc\<rparr>, w)),
      doc_set = (\<lambda>uid data w.
          if get_prop data (lit ''email'') = str ''unlucky@example.com''
          then (Inl (Failure (Prim (JNum 14))), w)
          else (Inr (), w)),
      doc_update = (\<lambda>uid fields w. (Inr (), w)),
      doc_delete = (\<lambda>uid w. (Inr (), w)),
      toISOString = (\<lambda>w. (example_time, w))\<rparr>"








text \<open>The same collaborator when the service cannot be reached to verify a token.\<close>

definition offline_collab :: "unit collab" where
  "offline_collab =
     example_collab\<lparr>verifyIdToken := (\<lambda>idToken w. (Inl (Failure (str ''app/network-error'')), w))\<rparr>"

definition start :: "unit st" where
  "start = \<lparr>world = (), calls = []\<rparr>"

definition example_record :: "string \<Rightarrow> jsprim \<Rightarrow> jsobject" where
  "example_record email d =
     [(lit ''uid'', str ''u2''), (lit ''email'', str email),
      (lit ''displayName'', Prim (or_prim d JUndefined)),
      (lit ''photoURL'', undefined_val),
      (lit ''emailVerified'', Prim (JBool False))]"

definition example_request :: "string \<Rightarrow> string \<Rightarrow> jsprim \<Rightarrow> register_body" where
  "example_request email password displayName =
     \<lparr>reg_email = JStr (lit email), reg_password = JStr (lit password),
      reg_displayName = displayName, reg_photoURL = JUndefined\<rparr>"

section \<open>Facts about the JavaScript layer\<close>

lemma lit_inj: "lit a = lit b \<longleftrightarrow> a = b"
proof -
  have unit: "(word_of_nat (of_char c) :: code_unit) = word_of_nat (of_char d) \<longleftrightarrow> c = d"
    for c d :: char
  proof -
    have small: "(of_char e :: nat) < 2 ^ 16" for e :: char
    proof -
      have "(of_char e :: nat) < 256"
        by (cases e) simp
      moreover have "(256::nat) < 2 ^ 16"
        by simp
      ultimately show ?thesis
        by (rule less_trans)
    qed
    have same: "take_bit 16 (of_char e :: nat) = of_char e" for e :: char
      by (rule take_bit_nat_eq_self) (rule small)
    show ?thesis
      by (simp add: word_of_nat_eq_iff same)
  qed
  have "inj (\<lambda>c. word_of_nat (of_char c) :: code_unit)"
    by (rule injI) (simp add: unit)
  then show ?thesis
    unfolding lit_def by (simp add: inj_map_eq_map)
qed

lemma lit_empty: "lit s = [] \<longleftrightarrow> s = []"
  by (simp add: lit_def)

lemma join_singletons: "join (map (\<lambda>u. [u]) xs) [] = xs"
  by (cases xs) (simp_all add: join_def comp_def)

lemma palindrome_of_rev: "palindrome_of w = rev w"
  by (simp add: palindrome_of_def split_def reverse_def rev_map join_singletons)

lemma post_palindrome_string:
  assumes "get_prop req_body (lit ''word'') = Prim (JStr w)" and "w \<noteq> []"
  shows "post_palindrome req_body =
    json [(lit ''original'', Prim (JStr w)), (lit ''palindrome'', Prim (JStr (palindrome_of w)))]"
  using assms
  by (simp add: post_palindrome_def post_palindrome_handler_def palindrome_of_def)

section \<open>The palindrome endpoints: the claims\<close>

text \<open>
  C8. For every non-empty string, reversing twice with the reversal of the palindrome
  endpoints (split into code units, reverse, join) gives the string back. The string is
  any sequence of 16-bit code units, so a character stored as two code units is covered.
\<close>

theorem reverse_twice:
  "w \<noteq> [] \<Longrightarrow> palindrome_of (palindrome_of w) = w"
  by (simp add: palindrome_of_rev)

text \<open>
  The string made of the surrogate pair D83D DE00 followed by the letter a: one reversal
  swaps the two halves of the pair, the second one restores them.
\<close>

theorem reverse_twice_witness:
  "[0xD83D, 0xDE00, 0x61] \<noteq> ([] :: jsstring)
   \<and> palindrome_of [0xD83D, 0xDE00, 0x61] = [0x61, 0xDE00, 0xD83D]
   \<and> palindrome_of (palindrome_of [0xD83D, 0xDE00, 0x61]) = [0xD83D, 0xDE00, 0x61]"
  using reverse_twice [of "[0xD83D, 0xDE00, 0x61]"]
  by (simp add: palindrome_of_rev)

text \<open>
  C9. For every non-empty word \<open>w\<close>, \<open>POST /palindrome\<close> with a body whose
  \<open>word\<close> is \<open>w\<close> and \<open>GET /palindrome/w\<close> send the same response: status 200
  and the body \<open>{original: w, palindrome: r}\<close>, where \<open>r\<close> is \<open>w\<close> with its code
  units in reversed order.
\<close>

theorem palindrome_body_and_path_agree:
  assumes "get_prop req_body (lit ''word'') = Prim (JStr w)" and "w \<noteq> []"
  shows "post_palindrome req_body = get_palindrome w
    \<and> get_palindrome w =
        json [(lit ''original'', Prim (JStr w)), (lit ''palindrome'', Prim (JStr (rev w)))]
    \<and> status (get_palindrome w) = 200"
  using assms
  by (simp add: post_palindrome_string get_palindrome_def palindrome_of_rev json_def status_json_def)

text \<open>The word hello, in the body and in the path.\<close>

theorem palindrome_hello:
  "post_palindrome [(lit ''word'', str ''hello'')] = get_palindrome (lit ''hello'')
   \<and> get_palindrome (lit ''hello'') =
       json [(lit ''original'', str ''hello''), (lit ''palindrome'', str ''olleh'')]"
proof -
  have word: "get_prop [(lit ''word'', str ''hello'')] (lit ''word'') = Prim (JStr (lit ''hello''))"
    by (simp add: str_def)
  have nonempty: "lit ''hello'' \<noteq> []"
    by (simp add: lit_empty)
  have "rev (lit ''hello'') = lit ''olleh''"
    by (simp add: lit_def)
  with palindrome_body_and_path_agree [OF word nonempty] show ?thesis
    by (simp add: str_def)
qed

section \<open>The authorization gate: the claims\<close>

lemma bearer_nonempty: "bearer \<noteq> []"
  by (simp add: bearer_def lit_empty)

lemma startsWith_bearer_nonempty: "startsWith h bearer \<Longrightarrow> h \<noteq> []"
  using bearer_nonempty by (auto simp: startsWith_def)

lemma verifyToken_falsy:
  "\<not> truthy authHeader \<Longrightarrow> verifyToken c authHeader s = (Responded no_token, s)"
  by (simp add: verifyToken_def verifyToken_try_def)

lemma verifyToken_no_bearer:
  "\<not> startsWith h bearer \<Longrightarrow> verifyToken c (Prim (JStr h)) s = (Responded no_token, s)"
  by (simp add: verifyToken_def verifyToken_try_def)

lemma verifyToken_not_string:
  assumes "truthy authHeader" and "\<forall>h. authHeader \<noteq> Prim (JStr h)"
  shows "verifyToken c authHeader s = (Responded authentication_error, s)"
proof -
  have "call_startsWith authHeader bearer = Inl TypeError"
    using assms(2) by (cases "(authHeader, bearer)" rule: call_startsWith.cases) auto
  with assms(1) show ?thesis
    by (simp add: verifyToken_def verifyToken_try_def)
qed

lemma verifyToken_bearer:
  assumes "startsWith h bearer"
  shows "verifyToken c (Prim (JStr h)) s =
    (case verifyIdToken c (index (split h bearer) 1) (world s) of
       (Inl e, w') \<Rightarrow>
         (Responded invalid_token,
          \<lparr>world = w', calls = calls s @ [VerifyIdToken (index (split h bearer) 1)]\<rparr>)
     | (Inr decodedToken, w') \<Rightarrow>
         (Next (user_of_token decodedToken),
          \<lparr>world = w', calls = calls s @ [VerifyIdToken (index (split h bearer) 1)]\<rparr>))"
  using assms startsWith_bearer_nonempty [OF assms]
  by (simp add: verifyToken_def verifyToken_try_def perform_def Let_def split: prod.splits sum.splits)

lemma gate_responses:
  "status no_token = 401" "get_prop (body no_token) (lit ''error'') = str ''No token provided''"
  "status invalid_token = 401" "get_prop (body invalid_token) (lit ''error'') = str ''Invalid token''"
  "status authentication_error = 500"
  "get_prop (body authentication_error) (lit ''error'') = str ''Authentication error''"
  by (simp_all add: no_token_def invalid_token_def authentication_error_def status_json_def)

lemma header_cases:
  obtains (falsy) "\<not> truthy authHeader"
  | (no_bearer) h where "authHeader = Prim (JStr h)" "\<not> startsWith h bearer"
  | (with_bearer) h where "authHeader = Prim (JStr h)" "startsWith h bearer"
  | (not_string) "truthy authHeader" "\<forall>h. authHeader \<noteq> Prim (JStr h)"
  by blast

lemma gate_500_only_outside_call:
  "fst (verifyToken c authHeader s) = Responded authentication_error \<longleftrightarrow>
     truthy authHeader \<and> (\<forall>h. authHeader \<noteq> Prim (JStr h))"
proof (cases authHeader rule: header_cases)
  case falsy
  then show ?thesis
    by (auto simp: verifyToken_falsy no_token_def authentication_error_def status_json_def)
next
  case (no_bearer h)
  then show ?thesis
    by (simp add: verifyToken_no_bearer no_token_def authentication_error_def status_json_def)
next
  case (with_bearer h)
  then show ?thesis
    by (auto simp: verifyToken_bearer invalid_token_def authentication_error_def status_json_def
        split: prod.splits sum.splits)
next
  case not_string
  then show ?thesis by (simp add: verifyToken_not_string)
qed

text \<open>
  C1, as the code has it. The mandatory gate, on the value of the Authorization header:
  \<^item> absent (undefined) or otherwise falsy, or a string that does not start with
    \<open>Bearer \<close>: it responds 401 \<open>No token provided\<close>, makes no collaborator call,
    and the handler behind it does not run;
  \<^item> a string that starts with \<open>Bearer \<close>, and \<open>auth.verifyIdToken\<close> rejects, for
    whatever reason, a fault in reaching the collaborator included: it responds 401
    \<open>Invalid token\<close>;
  \<^item> the same, and \<open>auth.verifyIdToken\<close> resolves: it calls \<open>next()\<close> with
    \<open>req.user\<close> set from the decoded token.
  The 500 \<open>Authentication error\<close> is the answer to an exception raised outside the
  verification call, and to nothing else: the gate sends it exactly when the header is a
  truthy value that is not a string, so never for an absent header or a string, whatever
  the collaborator does.
\<close>

theorem authorization_gate_outcomes:
  "(authHeader = undefined_val \<or> \<not> truthy authHeader
      \<or> (\<exists>h. authHeader = Prim (JStr h) \<and> \<not> startsWith h bearer) \<longrightarrow>
      verifyToken c authHeader s = (Responded no_token, s)
      \<and> protected c handler authHeader s = (no_token, s))
   \<and> (\<forall>h e w'. authHeader = Prim (JStr h) \<and> startsWith h bearer
         \<and> verifyIdToken c (index (split h bearer) 1) (world s) = (Inl e, w') \<longrightarrow>
       verifyToken c authHeader s =
         (Responded invalid_token,
          \<lparr>world = w', calls = calls s @ [VerifyIdToken (index (split h bearer) 1)]\<rparr>))
   \<and> (\<forall>h decodedToken w'. authHeader = Prim (JStr h) \<and> startsWith h bearer
         \<and> verifyIdToken c (index (split h bearer) 1) (world s) = (Inr decodedToken, w') \<longrightarrow>
       verifyToken c authHeader s =
         (Next (user_of_token decodedToken),
          \<lparr>world = w', calls = calls s @ [VerifyIdToken (index (split h bearer) 1)]\<rparr>))
   \<and> (truthy authHeader \<and> (\<forall>h. authHeader \<noteq> Prim (JStr h)) \<longrightarrow>
       verifyToken c authHeader s = (Responded authentication_error, s))
   \<and> (fst (verifyToken c authHeader s) = Responded authentication_error \<longleftrightarrow>
        truthy authHeader \<and> (\<forall>h. authHeader \<noteq> Prim (JStr h)))
   \<and> (authHeader = undefined_val \<or> (\<exists>h. authHeader = Prim (JStr h)) \<longrightarrow>
        fst (verifyToken c authHeader s) \<noteq> Responded authentication_error)
   \<and> status no_token = 401
   \<and> get_prop (body no_token) (lit ''error'') = str ''No token provided''
   \<and> status invalid_token = 401
   \<and> get_prop (body invalid_token) (lit ''error'') = str ''Invalid token''
   \<and> status authentication_error = 500
   \<and> get_prop (body authentication_error) (lit ''error'') = str ''Authentication error''"
proof -
  have missing: "verifyToken c authHeader s = (Responded no_token, s)"
    if "authHeader = undefined_val \<or> \<not> truthy authHeader
      \<or> (\<exists>h. authHeader = Prim (JStr h) \<and> \<not> startsWith h bearer)"
    using that by (auto simp: verifyToken_falsy verifyToken_no_bearer)
  then have not_run: "protected c handler authHeader s = (no_token, s)"
    if "authHeader = undefined_val \<or> \<not> truthy authHeader
      \<or> (\<exists>h. authHeader = Prim (JStr h) \<and> \<not> startsWith h bearer)"
    using that by (simp add: protected_def)
  have invalid: "verifyToken c authHeader s =
      (Responded invalid_token,
       \<lparr>world = w', calls = calls s @ [VerifyIdToken (index (split h bearer) 1)]\<rparr>)"
    if "authHeader = Prim (JStr h)" "startsWith h bearer"
      "verifyIdToken c (index (split h bearer) 1) (world s) = (Inl e, w')" for h e w'
    using that by (simp add: verifyToken_bearer)
  have valid: "verifyToken c authHeader s =
      (Next (user_of_token d),
       \<lparr>world = w', calls = calls s @ [VerifyIdToken (index (split h bearer) 1)]\<rparr>)"
    if "authHeader = Prim (JStr h)" "startsWith h bearer"
      "verifyIdToken c (index (split h bearer) 1) (world s) = (Inr d, w')" for h d w'
    using that by (simp add: verifyToken_bearer)
  have other: "verifyToken c authHeader s = (Responded authentication_error, s)"
    if "truthy authHeader" "\<forall>h. authHeader \<noteq> Prim (JStr h)"
    using that by (rule verifyToken_not_string)
  have only_then: "fst (verifyToken c authHeader s) = Responded authentication_error \<longleftrightarrow>
      truthy authHeader \<and> (\<forall>h. authHeader \<noteq> Prim (JStr h))"
    by (rule gate_500_only_outside_call)
  then have never: "fst (verifyToken c authHeader s) \<noteq> Responded authentication_error"
    if "authHeader = undefined_val \<or> (\<exists>h. authHeader = Prim (JStr h))"
    using that by auto
  from missing not_run invalid valid other only_then never show ?thesis
    by (simp add: gate_responses)
qed

text \<open>
  C1 as stated fails for a failure that is not the token's: when the collaborator cannot
  be reached, \<open>auth.verifyIdToken\<close> rejects with a network error, the inner
  \<open>catch\<close> takes it, and the gate answers 401 \<open>Invalid token\<close>, not the 500.
\<close>

theorem transport_fault_answered_401:
  "verifyIdToken offline_collab (str ''abc'') () = (Inl (Failure (str ''app/network-error'')), ())
   \<and> verifyToken offline_collab (str ''Bearer abc'') start =
       (Responded invalid_token, \<lparr>world = (), calls = [VerifyIdToken (str ''abc'')]\<rparr>)
   \<and> status invalid_token = 401
   \<and> fst (verifyToken offline_collab (str ''Bearer abc'') start) \<noteq> Responded authentication_error"
proof -
  have gate: "verifyToken offline_collab (str ''Bearer abc'') start =
       (Responded invalid_token, \<lparr>world = (), calls = [VerifyIdToken (str ''abc'')]\<rparr>)"
    by (simp add: str_def verifyToken_bearer bearer_def lit_def startsWith_def split_def index_def
        offline_collab_def start_def)
  have "invalid_token \<noteq> authentication_error"
    by (simp add: invalid_token_def authentication_error_def status_json_def)
  with gate show ?thesis
    by (simp add: offline_collab_def gate_responses)
qed

lemma example_bad_token: "split (lit ''Bearer bad'') bearer = [[], lit ''bad'']"
  by (simp add: split_def bearer_def lit_def startsWith_def)

lemma example_good_token: "split (lit ''Bearer good'') bearer = [[], lit ''good'']"
  by (simp add: split_def bearer_def lit_def startsWith_def)

lemma example_verify:
  "verifyIdToken example_collab (str ''bad'') () = (Inl (Failure (str ''auth/argument-error'')), ())"
  "verifyIdToken example_collab (str ''good'') () = (Inr example_token, ())"
  by (simp_all add: example_collab_def str_def lit_inj)

text \<open>
  The five kinds of header on the example collaborator: none, another scheme, a token it
  refuses, the token it knows, and a number.
\<close>

theorem authorization_gate_examples:
  "verifyToken example_collab undefined_val start = (Responded no_token, start)
   \<and> protected example_collab (get_user example_collab) undefined_val start = (no_token, start)
   \<and> verifyToken example_collab (str ''Basic abc'') start = (Responded no_token, start)
   \<and> verifyToken example_collab (str ''Bearer bad'') start =
       (Responded invalid_token, \<lparr>world = (), calls = [VerifyIdToken (str ''bad'')]\<rparr>)
   \<and> verifyToken example_collab (str ''Bearer good'') start =
       (Next (user_of_token example_token), \<lparr>world = (), calls = [VerifyIdToken (str ''good'')]\<rparr>)
   \<and> verifyToken example_collab (Prim (JNum 5)) start = (Responded authentication_error, start)
   \<and> fst (verifyToken example_collab (str ''Bearer bad'') start) \<noteq> Responded authentication_error"
proof -
  have basic: "\<not> startsWith (lit ''Basic abc'') bearer"
    by (simp add: bearer_def lit_def startsWith_def)
  have bad: "startsWith (lit ''Bearer bad'') bearer"
    by (simp add: bearer_def lit_def startsWith_def)
  have good: "startsWith (lit ''Bearer good'') bearer"
    by (simp add: bearer_def lit_def startsWith_def)
  from authorization_gate_outcomes
    [where authHeader = undefined_val and c = example_collab and s = start
       and handler = "get_user example_collab"]
  have absent: "verifyToken example_collab undefined_val start = (Responded no_token, start)
      \<and> protected example_collab (get_user example_collab) undefined_val start = (no_token, start)"
    by simp
  from authorization_gate_outcomes
    [where authHeader = "str ''Basic abc''" and c = example_collab and s = start] basic
  have other_scheme: "verifyToken example_collab (str ''Basic abc'') start = (Responded no_token, start)"
    by (simp add: str_def)
  from authorization_gate_outcomes
    [where authHeader = "str ''Bearer bad''" and c = example_collab and s = start] bad
  have rejected: "verifyToken example_collab (str ''Bearer bad'') start =
      (Responded invalid_token, \<lparr>world = (), calls = [VerifyIdToken (str ''bad'')]\<rparr>)"
    by (simp add: str_def example_bad_token index_def example_verify [unfolded str_def] start_def)
  from authorization_gate_outcomes
    [where authHeader = "str ''Bearer good''" and c = example_collab and s = start] good
  have accepted: "verifyToken example_collab (str ''Bearer good'') start =
      (Next (user_of_token example_token), \<lparr>world = (), calls = [VerifyIdToken (str ''good'')]\<rparr>)"
    by (simp add: str_def example_good_token index_def example_verify [unfolded str_def] start_def)
  from authorization_gate_outcomes
    [where authHeader = "Prim (JNum 5)" and c = example_collab and s = start]
  have fault: "verifyToken example_collab (Prim (JNum 5)) start = (Responded authentication_error, start)"
    by simp
  from authorization_gate_outcomes
    [where authHeader = "str ''Bearer bad''" and c = example_collab and s = start]
  have no_500: "fst (verifyToken example_collab (str ''Bearer bad'') start) \<noteq>
      Responded authentication_error"
    by (simp add: str_def)
  from absent other_scheme rejected accepted fault no_500 show ?thesis
    by simp
qed


lemma verifyToken_Responded:
  assumes "verifyToken c authHeader s = (Responded r, s')"
  shows "(r = no_token \<or> r = invalid_token \<or> r = authentication_error)
    \<and> (s' = s \<or> (\<exists>idToken w'. s' = \<lparr>world = w', calls = calls s @ [VerifyIdToken idToken]\<rparr>))"
proof (cases authHeader rule: header_cases)
  case falsy
  with assms show ?thesis by (simp add: verifyToken_falsy)
next
  case (no_bearer h)
  with assms show ?thesis by (simp add: verifyToken_no_bearer)
next
  case (with_bearer h)
  with assms show ?thesis
    by (auto simp: verifyToken_bearer split: prod.splits sum.splits)
next
  case not_string
  with assms show ?thesis by (simp add: verifyToken_not_string)
qed

lemma verifyToken_Next:
  assumes "verifyToken c authHeader s = (Next user, s')"
  shows "\<exists>h decodedToken w'. authHeader = Prim (JStr h) \<and> startsWith h bearer
    \<and> verifyIdToken c (index (split h bearer) 1) (world s) = (Inr decodedToken, w')
    \<and> user = user_of_token decodedToken
    \<and> s' = \<lparr>world = w', calls = calls s @ [VerifyIdToken (index (split h bearer) 1)]\<rparr>"
proof (cases authHeader rule: header_cases)
  case falsy
  with assms show ?thesis by (simp add: verifyToken_falsy)
next
  case (no_bearer h)
  with assms show ?thesis by (simp add: verifyToken_no_bearer)
next
  case (with_bearer h)
  with assms show ?thesis
    by (auto simp: verifyToken_bearer split: prod.splits sum.splits)
next
  case not_string
  with assms show ?thesis by (simp add: verifyToken_not_string)
qed

lemma user_of_token_uid: "get_prop (user_of_token d) (lit ''uid'') = get_prop d (lit ''uid'')"
  by (simp add: user_of_token_def)

text \<open>
  C2. On \<open>GET\<close>, \<open>PUT\<close> and \<open>DELETE /auth/user\<close>: when the gate responds itself,
  the route's response is the gate's (one of its three rejections), the handler produces
  none, and the only collaborator call the request can have made is the gate's
  \<open>verifyIdToken\<close>; when the handler runs, the gate has set \<open>req.user\<close> from a token
  that \<open>verifyIdToken\<close> resolved, with that token's \<open>uid\<close>.
\<close>

theorem handlers_behind_gate:
  "(\<forall>r s'. verifyToken c authHeader s = (Responded r, s') \<longrightarrow>
      route_get_user c authHeader s = (r, s')
      \<and> route_put_user c authHeader req_body s = (r, s')
      \<and> route_delete_user c authHeader s = (r, s')
      \<and> (r = no_token \<or> r = invalid_token \<or> r = authentication_error)
      \<and> (calls s' = calls s \<or> (\<exists>idToken. calls s' = calls s @ [VerifyIdToken idToken])))
   \<and> (\<forall>user s'. verifyToken c authHeader s = (Next user, s') \<longrightarrow>
      route_get_user c authHeader s = get_user c user s'
      \<and> route_put_user c authHeader req_body s = put_user c user req_body s'
      \<and> route_delete_user c authHeader s = delete_user c user s'
      \<and> (\<exists>h decodedToken w'. authHeader = Prim (JStr h) \<and> startsWith h bearer
            \<and> verifyIdToken c (index (split h bearer) 1) (world s) = (Inr decodedToken, w')
            \<and> user = user_of_token decodedToken
            \<and> get_prop user (lit ''uid'') = get_prop decodedToken (lit ''uid'')))"
proof (intro conjI allI impI)
  fix r s'
  assume gate: "verifyToken c authHeader s = (Responded r, s')"
  then show "route_get_user c authHeader s = (r, s')"
    and "route_put_user c authHeader req_body s = (r, s')"
    and "route_delete_user c authHeader s = (r, s')"
    by (simp_all add: route_get_user_def route_put_user_def route_delete_user_def protected_def)
  from verifyToken_Responded [OF gate]
  show "r = no_token \<or> r = invalid_token \<or> r = authentication_error"
    and "calls s' = calls s \<or> (\<exists>idToken. calls s' = calls s @ [VerifyIdToken idToken])"
    by auto
next
  fix user s'
  assume gate: "verifyToken c authHeader s = (Next user, s')"
  then show "route_get_user c authHeader s = get_user c user s'"
    and "route_put_user c authHeader req_body s = put_user c user req_body s'"
    and "route_delete_user c authHeader s = delete_user c user s'"
    by (simp_all add: route_get_user_def route_put_user_def route_delete_user_def protected_def)
  from verifyToken_Next [OF gate]
  show "\<exists>h decodedToken w'. authHeader = Prim (JStr h) \<and> startsWith h bearer
      \<and> verifyIdToken c (index (split h bearer) 1) (world s) = (Inr decodedToken, w')
      \<and> user = user_of_token decodedToken
      \<and> get_prop user (lit ''uid'') = get_prop decodedToken (lit ''uid'')"
    by (auto simp: user_of_token_uid)
qed

lemma example_no_header:
  "verifyToken example_collab undefined_val start = (Responded no_token, start)"
  by (simp add: verifyToken_falsy)

lemma example_refused:
  "verifyToken example_collab (str ''Bearer bad'') start =
     (Responded invalid_token, \<lparr>world = (), calls = [VerifyIdToken (str ''bad'')]\<rparr>)"
  by (simp add: str_def verifyToken_bearer bearer_def lit_def startsWith_def split_def index_def
      example_collab_def start_def)

lemma example_accepted:
  "verifyToken example_collab (str ''Bearer good'') start =
     (Next (user_of_token example_token), \<lparr>world = (), calls = [VerifyIdToken (str ''good'')]\<rparr>)"
  by (simp add: str_def verifyToken_bearer bearer_def lit_def startsWith_def split_def index_def
      example_collab_def start_def)

lemma example_uid: "get_prop (user_of_token example_token) (lit ''uid'') = str ''u1''"
  by (simp add: user_of_token_def example_token_def)

lemma example_get_user:
  "get_user example_collab (user_of_token example_token) \<lparr>world = (), calls = cs\<rparr> =
     (json [(lit ''user'', example_doc)], \<lparr>world = (), calls = cs @ [DocGet (str ''u1'')]\<rparr>)"
  by (simp add: get_user_def get_user_try_def example_uid perform_def example_collab_def Let_def)

lemma example_delete_user:
  "delete_user example_collab (user_of_token example_token) \<lparr>world = (), calls = cs\<rparr> =
     (json [(lit ''message'', str ''Account deleted successfully'')],
      \<lparr>world = (), calls = cs @ [DocDelete (str ''u1''), DeleteUser (str ''u1'')]\<rparr>)"
  by (simp add: delete_user_def delete_user_try_def example_uid perform_def example_collab_def Let_def)

text \<open>
  Requests without a header and with a refused token end at the gate; with the known
  token the handlers run, after the gate's call, for the user \<open>u1\<close> of the token.
\<close>

theorem handlers_behind_gate_examples:
  "route_get_user example_collab undefined_val start = (no_token, start)
   \<and> route_put_user example_collab undefined_val [(lit ''bio'', str ''x'')] start = (no_token, start)
   \<and> route_delete_user example_collab (str ''Bearer bad'') start =
       (invalid_token, \<lparr>world = (), calls = [VerifyIdToken (str ''bad'')]\<rparr>)
   \<and> route_get_user example_collab (str ''Bearer good'') start =
       (json [(lit ''user'', example_doc)],
        \<lparr>world = (), calls = [VerifyIdToken (str ''good''), DocGet (str ''u1'')]\<rparr>)
   \<and> route_delete_user example_collab (str ''Bearer good'') start =
       (json [(lit ''message'', str ''Account deleted successfully'')],
        \<lparr>world = (), calls = [VerifyIdToken (str ''good''), DocDelete (str ''u1''), DeleteUser (str ''u1'')]\<rparr>)"
proof -
  from handlers_behind_gate
    [where c = example_collab and authHeader = undefined_val and s = start
       and req_body = "[(lit ''bio'', str ''x'')]"]
    example_no_header
  have absent: "route_get_user example_collab undefined_val start = (no_token, start)
      \<and> route_put_user example_collab undefined_val [(lit ''bio'', str ''x'')] start = (no_token, start)"
    by simp
  from handlers_behind_gate
    [where c = example_collab and authHeader = "str ''Bearer bad''" and s = start]
    example_refused
  have refused: "route_delete_user example_collab (str ''Bearer bad'') start =
      (invalid_token, \<lparr>world = (), calls = [VerifyIdToken (str ''bad'')]\<rparr>)"
    by simp
  from handlers_behind_gate
    [where c = example_collab and authHeader = "str ''Bearer good''" and s = start]
    example_accepted
  have accepted: "route_get_user example_collab (str ''Bearer good'') start =
        get_user example_collab (user_of_token example_token)
          \<lparr>world = (), calls = [VerifyIdToken (str ''good'')]\<rparr>
      \<and> route_delete_user example_collab (str ''Bearer good'') start =
        delete_user example_collab (user_of_token example_token)
          \<lparr>world = (), calls = [VerifyIdToken (str ''good'')]\<rparr>"
    by simp
  from absent refused accepted show ?thesis
    by (simp add: example_get_user example_delete_user)
qed


section \<open>Registration: the claims\<close>

lemma register_missing:
  "\<not> truthy_prim (reg_email b) \<or> \<not> truthy_prim (reg_password b) \<Longrightarrow>
   register c b s = (missing_fields, s)"
  by (auto simp: register_def register_try_def)

lemma register_short:
  assumes "truthy_prim (reg_email b)" and "reg_password b = JStr p" and "p \<noteq> []" and "length p < 6"
  shows "register c b s = (password_too_short, s)"
  using assms by (simp add: register_def register_try_def)

lemma register_passes:
  assumes "truthy_prim (reg_email b)" and "truthy_prim (reg_password b)"
    and "length_less (reg_password b) 6 = Inr False"
  shows "register c b s =
    (case register_create c b s of
       (Inl e, s') \<Rightarrow>
         (if error_code e = str ''auth/email-already-exists'' then user_exists
          else registration_failed, s')
     | (Inr r, s') \<Rightarrow> (r, s'))"
  using assms
  by (simp add: register_def register_try_def split: prod.splits sum.splits)

lemma register_create_rejected:
  assumes "createUser c (createUser_args b) (world s) = (Inl e, w1)"
  shows "register_create c b s =
    (Inl e, \<lparr>world = w1, calls = calls s @ [CreateUser (createUser_args b)]\<rparr>)"
  using assms by (simp add: register_create_def perform_def)

lemma register_create_written:
  assumes "createUser c (createUser_args b) (world s) = (Inr u, w1)"
    and "toISOString c w1 = (t1, w2)" and "toISOString c w2 = (t2, w3)"
    and "doc_set c (get_prop u (lit ''uid'')) (userData_of b u t1 t2) w3 = (r, w4)"
  shows "register_create c b s =
    ((case r of Inl e \<Rightarrow> Inl e | Inr done \<Rightarrow> Inr (user_created u)),
     \<lparr>world = w4,
      calls = calls s @ [CreateUser (createUser_args b),
                         DocSet (get_prop u (lit ''uid'')) (userData_of b u t1 t2)]\<rparr>)"
  using assms
  by (simp add: register_create_def perform_def now_def Let_def split: sum.splits)

lemma register_statuses:
  "status missing_fields = 400" "status password_too_short = 400" "status user_exists = 409"
  "status registration_failed = 500" "status (user_created u) = 201"
  by (simp_all add: missing_fields_def password_too_short_def user_exists_def
      registration_failed_def user_created_def status_json_def)

text \<open>Every run of the handler, by what the collaborator answers.\<close>

lemma register_runs:
  obtains (missing) "\<not> truthy_prim (reg_email b) \<or> \<not> truthy_prim (reg_password b)"
      "register c b s = (missing_fields, s)"
  | (short) "truthy_prim (reg_email b)" "truthy_prim (reg_password b)"
      "length_less (reg_password b) 6 = Inr True"
      "register c b s = (password_too_short, s)"
  | (rejected) e w1 where "truthy_prim (reg_email b)" "truthy_prim (reg_password b)"
      "length_less (reg_password b) 6 = Inr False"
      "createUser c (createUser_args b) (world s) = (Inl e, w1)"
      "register c b s =
         (if error_code e = str ''auth/email-already-exists'' then user_exists else registration_failed,
          \<lparr>world = w1, calls = calls s @ [CreateUser (createUser_args b)]\<rparr>)"
  | (write_failed) u w1 t1 w2 t2 w3 e w4 where "truthy_prim (reg_email b)" "truthy_prim (reg_password b)"
      "length_less (reg_password b) 6 = Inr False"
      "createUser c (createUser_args b) (world s) = (Inr u, w1)"
      "toISOString c w1 = (t1, w2)" "toISOString c w2 = (t2, w3)"
      "doc_set c (get_prop u (lit ''uid'')) (userData_of b u t1 t2) w3 = (Inl e, w4)"
      "register c b s =
         (if error_code e = str ''auth/email-already-exists'' then user_exists else registration_failed,
          \<lparr>world = w4,
           calls = calls s @ [CreateUser (createUser_args b),
                              DocSet (get_prop u (lit ''uid'')) (userData_of b u t1 t2)]\<rparr>)"
  | (created) u w1 t1 w2 t2 w3 w4 where "truthy_prim (reg_email b)" "truthy_prim (reg_password b)"
      "length_less (reg_password b) 6 = Inr False"
      "createUser c (createUser_args b) (world s) = (Inr u, w1)"
      "toISOString c w1 = (t1, w2)" "toISOString c w2 = (t2, w3)"
      "doc_set c (get_prop u (lit ''uid'')) (userData_of b u t1 t2) w3 = (Inr (), w4)"
      "register c b s =
         (user_created u,
          \<lparr>world = w4,
           calls = calls s @ [CreateUser (createUser_args b),
                              DocSet (get_prop u (lit ''uid'')) (userData_of b u t1 t2)]\<rparr>)"
proof (cases "\<not> truthy_prim (reg_email b) \<or> \<not> truthy_prim (reg_password b)")
  case True
  then show ?thesis using missing register_missing by blast
next
  case False
  then have em: "truthy_prim (reg_email b)" and pw: "truthy_prim (reg_password b)"
    by simp_all
  from pw obtain short_pw where len: "length_less (reg_password b) 6 = Inr short_pw"
    by (cases "reg_password b") auto
  show ?thesis
  proof (cases short_pw)
    case True
    with em pw len have "register c b s = (password_too_short, s)"
      by (simp add: register_def register_try_def)
    with em pw len True show ?thesis using short by simp
  next
    case False
    with len have valid: "length_less (reg_password b) 6 = Inr False" by simp
    note reg = register_passes [OF em pw valid, of c s]
    obtain r1 w1 where cu: "createUser c (createUser_args b) (world s) = (r1, w1)"
      by (cases "createUser c (createUser_args b) (world s)")
    show ?thesis
    proof (cases r1)
      case (Inl e)
      with cu reg have "register c b s =
         (if error_code e = str ''auth/email-already-exists'' then user_exists else registration_failed,
          \<lparr>world = w1, calls = calls s @ [CreateUser (createUser_args b)]\<rparr>)"
        by (simp add: register_create_rejected)
      with em pw valid cu Inl show ?thesis using rejected by blast
    next
      case (Inr u)
      obtain t1 w2 where n1: "toISOString c w1 = (t1, w2)"
        by (cases "toISOString c w1")
      obtain t2 w3 where n2: "toISOString c w2 = (t2, w3)"
        by (cases "toISOString c w2")
      obtain r4 w4 where ds: "doc_set c (get_prop u (lit ''uid'')) (userData_of b u t1 t2) w3 = (r4, w4)"
        by (cases "doc_set c (get_prop u (lit ''uid'')) (userData_of b u t1 t2) w3")
      note rc = register_create_written [OF cu [unfolded Inr] n1 n2 ds]
      show ?thesis
      proof (cases r4)
        case (Inl e)
        with reg rc have "register c b s =
         (if error_code e = str ''auth/email-already-exists'' then user_exists else registration_failed,
          \<lparr>world = w4,
           calls = calls s @ [CreateUser (createUser_args b),
                              DocSet (get_prop u (lit ''uid'')) (userData_of b u t1 t2)]\<rparr>)"
          by simp
        with em pw valid cu Inr n1 n2 ds Inl show ?thesis using write_failed by blast
      next
        case (Inr ok)
        with reg rc have "register c b s =
         (user_created u,
          \<lparr>world = w4,
           calls = calls s @ [CreateUser (createUser_args b),
                              DocSet (get_prop u (lit ''uid'')) (userData_of b u t1 t2)]\<rparr>)"
          by simp
        with em pw valid cu \<open>r1 = Inr u\<close> n1 n2 ds Inr show ?thesis using created by simp
      qed
    qed
  qed
qed


lemma validation_responses:
  "get_prop (body missing_fields) (lit ''error'') = str ''Missing required fields''"
  "get_prop (body missing_fields) (lit ''message'') = str ''Email and password are required''"
  "get_prop (body password_too_short) (lit ''error'') = str ''Password too short''"
  "get_prop (body password_too_short) (lit ''message'') =
     str ''Password must be at least 6 characters long''"
  by (simp_all add: missing_fields_def password_too_short_def status_json_def lit_inj)

lemma example_createUser_ok:
  assumes "email \<noteq> ''taken@example.com''" and "email \<noteq> ''nobody''"
  shows "createUser example_collab (createUser_args (example_request email password d)) () =
    (Inr (example_record email d), ())"
  using assms
  by (simp add: example_collab_def createUser_args_def example_request_def example_record_def
      str_def lit_inj or_prim_def)

lemma example_register_created:
  assumes "email \<noteq> []" and "6 \<le> length password"
    and "email \<noteq> ''taken@example.com''" and "email \<noteq> ''nobody''"
    and "email \<noteq> ''unlucky@example.com''"
  shows "register example_collab (example_request email password d) start =
    (user_created (example_record email d),
     \<lparr>world = (), calls = [CreateUser (createUser_args (example_request email password d)),
        DocSet (str ''u2'') (userData_of (example_request email password d)
          (example_record email d) example_time example_time)]\<rparr>)"
proof -
  let ?b = "example_request email password d"
  have em: "truthy_prim (reg_email ?b)" and pw: "truthy_prim (reg_password ?b)"
    and len: "length_less (reg_password ?b) 6 = Inr False"
    using assms(1,2) by (auto simp: example_request_def lit_empty lit_def)
  have made: "createUser example_collab (createUser_args ?b) (world start) =
      (Inr (example_record email d), ())"
    using example_createUser_ok [OF assms(3,4)] by (simp add: start_def)
  have clock: "toISOString example_collab () = (example_time, ())"
    by (simp add: example_collab_def)
  have uid: "get_prop (example_record email d) (lit ''uid'') = str ''u2''"
    by (simp add: example_record_def)
  have mail: "get_prop (userData_of ?b (example_record email d) example_time example_time)
      (lit ''email'') = str email"
    by (simp add: userData_of_def example_record_def lit_inj)
  have stored: "doc_set example_collab (get_prop (example_record email d) (lit ''uid''))
      (userData_of ?b (example_record email d) example_time example_time) () = (Inr (), ())"
    using assms(5) by (simp add: example_collab_def mail str_def lit_inj)
  from register_create_written [OF made clock clock stored]
  show ?thesis
    by (simp add: register_passes [OF em pw len] start_def uid)
qed


text \<open>
  C3. \<open>POST /auth/register\<close> validates before it calls the collaborator. When
  \<open>email\<close> or \<open>password\<close> is missing (undefined), the empty string or any other
  falsy value, the response is 400 \<open>Missing required fields\<close>; when the password is a
  string of fewer than 6 code units, it is 400 \<open>Password too short\<close>; in both cases the
  state is the one before the request: no collaborator call. A password of 6 code units or
  more passes: the response is not a 400 and the first call made is \<open>auth.createUser\<close>.
\<close>

theorem register_validation:
  "(reg_email b = JUndefined \<or> reg_email b = JStr [] \<or> reg_password b = JUndefined
      \<or> reg_password b = JStr [] \<or> \<not> truthy_prim (reg_email b) \<or> \<not> truthy_prim (reg_password b) \<longrightarrow>
      register c b s = (missing_fields, s))
   \<and> (\<forall>p. truthy_prim (reg_email b) \<and> reg_password b = JStr p \<and> p \<noteq> [] \<and> length p < 6 \<longrightarrow>
      register c b s = (password_too_short, s))
   \<and> (\<forall>p. truthy_prim (reg_email b) \<and> reg_password b = JStr p \<and> 6 \<le> length p \<longrightarrow>
      status (fst (register c b s)) \<noteq> 400
      \<and> (\<exists>rest. calls (snd (register c b s)) = calls s @ CreateUser (createUser_args b) # rest))
   \<and> status missing_fields = 400
   \<and> get_prop (body missing_fields) (lit ''error'') = str ''Missing required fields''
   \<and> get_prop (body missing_fields) (lit ''message'') = str ''Email and password are required''
   \<and> status password_too_short = 400
   \<and> get_prop (body password_too_short) (lit ''error'') = str ''Password too short''"
proof -
  have missing: "register c b s = (missing_fields, s)"
    if "reg_email b = JUndefined \<or> reg_email b = JStr [] \<or> reg_password b = JUndefined
      \<or> reg_password b = JStr [] \<or> \<not> truthy_prim (reg_email b) \<or> \<not> truthy_prim (reg_password b)"
  proof -
    from that have "\<not> truthy_prim (reg_email b) \<or> \<not> truthy_prim (reg_password b)"
      by auto
    then show ?thesis by (rule register_missing)
  qed
  have short: "register c b s = (password_too_short, s)"
    if "truthy_prim (reg_email b)" "reg_password b = JStr p" "p \<noteq> []" "length p < 6" for p
    using that by (rule register_short)
  have passes: "status (fst (register c b s)) \<noteq> 400
      \<and> (\<exists>rest. calls (snd (register c b s)) = calls s @ CreateUser (createUser_args b) # rest)"
    if em: "truthy_prim (reg_email b)" and pw: "reg_password b = JStr p" and len: "6 \<le> length p" for p
  proof (cases rule: register_runs [where b = b and c = c and s = s])
    case missing
    with em pw len show ?thesis by auto
  next
    case short
    with pw len show ?thesis by simp
  next
    case (rejected e w1)
    then show ?thesis by (simp add: register_statuses)
  next
    case (write_failed u w1 t1 w2 t2 w3 e w4)
    then show ?thesis by (simp add: register_statuses)
  next
    case (created u w1 t1 w2 t2 w3 w4)
    then show ?thesis by (simp add: register_statuses)
  qed
  from missing short passes show ?thesis
    by (simp add: register_statuses validation_responses)
qed

text \<open>
  An empty e-mail address and a missing password are refused as missing, a password of 5
  code units as too short, all three before any call; with 6 code units the principal is
  created.
\<close>

theorem register_validation_examples:
  "register example_collab (example_request [] ''secret1'' JUndefined) start = (missing_fields, start)
   \<and> register example_collab
        \<lparr>reg_email = JStr (lit ''new@example.com''), reg_password = JUndefined,
         reg_displayName = JUndefined, reg_photoURL = JUndefined\<rparr> start = (missing_fields, start)
   \<and> register example_collab (example_request ''new@example.com'' ''abcde'' JUndefined) start =
       (password_too_short, start)
   \<and> status (fst (register example_collab (example_request ''new@example.com'' ''abcdef'' JUndefined) start)) = 201
   \<and> (\<exists>rest. calls (snd (register example_collab (example_request ''new@example.com'' ''abcdef'' JUndefined) start)) =
         CreateUser (createUser_args (example_request ''new@example.com'' ''abcdef'' JUndefined)) # rest)"
proof -
  from register_validation [where b = "example_request [] ''secret1'' JUndefined"
      and c = example_collab and s = start]
  have no_email: "register example_collab (example_request [] ''secret1'' JUndefined) start =
      (missing_fields, start)"
    by (simp add: example_request_def lit_def)
  from register_validation [where c = example_collab and s = start
      and b = "\<lparr>reg_email = JStr (lit ''new@example.com''), reg_password = JUndefined,
         reg_displayName = JUndefined, reg_photoURL = JUndefined\<rparr>"]
  have no_password: "register example_collab
        \<lparr>reg_email = JStr (lit ''new@example.com''), reg_password = JUndefined,
         reg_displayName = JUndefined, reg_photoURL = JUndefined\<rparr> start = (missing_fields, start)"
    by simp
  from register_validation [where c = example_collab and s = start
      and b = "example_request ''new@example.com'' ''abcde'' JUndefined"]
  have five: "register example_collab (example_request ''new@example.com'' ''abcde'' JUndefined) start =
       (password_too_short, start)"
    by (simp add: example_request_def lit_def)
  from register_validation [where c = example_collab and s = start
      and b = "example_request ''new@example.com'' ''abcdef'' JUndefined"]
  have six: "\<exists>rest. calls (snd (register example_collab (example_request ''new@example.com'' ''abcdef'' JUndefined) start)) =
         CreateUser (createUser_args (example_request ''new@example.com'' ''abcdef'' JUndefined)) # rest"
    by (simp add: example_request_def lit_def start_def)
  have "status (fst (register example_collab (example_request ''new@example.com'' ''abcdef'' JUndefined) start)) = 201"
    by (simp add: example_register_created register_statuses)
  with no_email no_password five six show ?thesis
    by simp
qed

lemma conflict_responses:
  "get_prop (body user_exists) (lit ''error'') = str ''User already exists''"
  "get_prop (body registration_failed) (lit ''error'') = str ''Registration failed''"
  by (simp_all add: user_exists_def registration_failed_def status_json_def)

text \<open>
  C4. On a \<open>POST /auth/register\<close> request that passes validation: when
  \<open>auth.createUser\<close> rejects with the code \<open>auth/email-already-exists\<close>, the response
  is 409 \<open>User already exists\<close> and the only call made is \<open>createUser\<close> (no profile
  document is written); when it rejects with any other error, and when the write of the
  profile document that follows a created principal rejects with any other error, the
  response is 500 \<open>Registration failed\<close>; and the calls of the request are
  \<open>createUser\<close> alone or \<open>createUser\<close> followed by the document write, so the write
  never comes first.
\<close>

theorem register_conflict_and_failures:
  assumes "truthy_prim (reg_email b)" and "truthy_prim (reg_password b)"
    and "length_less (reg_password b) 6 = Inr False"
  shows "(\<forall>e w1. createUser c (createUser_args b) (world s) = (Inl e, w1)
          \<and> error_code e = str ''auth/email-already-exists'' \<longrightarrow>
        register c b s =
          (user_exists, \<lparr>world = w1, calls = calls s @ [CreateUser (createUser_args b)]\<rparr>))
    \<and> (\<forall>e w1. createUser c (createUser_args b) (world s) = (Inl e, w1)
          \<and> error_code e \<noteq> str ''auth/email-already-exists'' \<longrightarrow>
        register c b s =
          (registration_failed, \<lparr>world = w1, calls = calls s @ [CreateUser (createUser_args b)]\<rparr>))
    \<and> (\<forall>u w1 t1 w2 t2 w3 e w4. createUser c (createUser_args b) (world s) = (Inr u, w1)
          \<and> toISOString c w1 = (t1, w2) \<and> toISOString c w2 = (t2, w3)
          \<and> doc_set c (get_prop u (lit ''uid'')) (userData_of b u t1 t2) w3 = (Inl e, w4)
          \<and> error_code e \<noteq> str ''auth/email-already-exists'' \<longrightarrow>
        register c b s =
          (registration_failed,
           \<lparr>world = w4,
            calls = calls s @ [CreateUser (createUser_args b),
                               DocSet (get_prop u (lit ''uid'')) (userData_of b u t1 t2)]\<rparr>))
    \<and> (calls (snd (register c b s)) = calls s @ [CreateUser (createUser_args b)]
        \<or> (\<exists>uid userData. calls (snd (register c b s)) =
              calls s @ [CreateUser (createUser_args b), DocSet uid userData]))
    \<and> status user_exists = 409
    \<and> get_prop (body user_exists) (lit ''error'') = str ''User already exists''
    \<and> status registration_failed = 500
    \<and> get_prop (body registration_failed) (lit ''error'') = str ''Registration failed''"
proof -
  note reg = register_passes [OF assms, of c s]
  have conflict: "register c b s =
      (user_exists, \<lparr>world = w1, calls = calls s @ [CreateUser (createUser_args b)]\<rparr>)"
    if "createUser c (createUser_args b) (world s) = (Inl e, w1)"
      and "error_code e = str ''auth/email-already-exists''" for e w1
    using that reg by (simp add: register_create_rejected)
  have create_failed: "register c b s =
      (registration_failed, \<lparr>world = w1, calls = calls s @ [CreateUser (createUser_args b)]\<rparr>)"
    if "createUser c (createUser_args b) (world s) = (Inl e, w1)"
      and "error_code e \<noteq> str ''auth/email-already-exists''" for e w1
    using that reg by (simp add: register_create_rejected)
  have write_failed: "register c b s =
      (registration_failed,
       \<lparr>world = w4,
        calls = calls s @ [CreateUser (createUser_args b),
                           DocSet (get_prop u (lit ''uid'')) (userData_of b u t1 t2)]\<rparr>)"
    if "createUser c (createUser_args b) (world s) = (Inr u, w1)"
      and "toISOString c w1 = (t1, w2)" and "toISOString c w2 = (t2, w3)"
      and "doc_set c (get_prop u (lit ''uid'')) (userData_of b u t1 t2) w3 = (Inl e, w4)"
      and "error_code e \<noteq> str ''auth/email-already-exists''" for u w1 t1 w2 t2 w3 e w4
    using that(5) reg by (simp add: register_create_written [OF that(1-4)])
  have order: "calls (snd (register c b s)) = calls s @ [CreateUser (createUser_args b)]
      \<or> (\<exists>uid userData. calls (snd (register c b s)) =
            calls s @ [CreateUser (createUser_args b), DocSet uid userData])"
  proof (cases rule: register_runs [where b = b and c = c and s = s])
    case missing
    with assms show ?thesis by simp
  next
    case short
    with assms show ?thesis by simp
  next
    case (rejected e w1)
    then show ?thesis by simp
  next
    case (write_failed u w1 t1 w2 t2 w3 e w4)
    then show ?thesis by simp
  next
    case (created u w1 t1 w2 t2 w3 w4)
    then show ?thesis by simp
  qed
  from conflict create_failed write_failed order show ?thesis
    by (simp add: register_statuses conflict_responses)
qed

lemma example_request_valid:
  assumes "email \<noteq> []" and "6 \<le> length password"
  shows "truthy_prim (reg_email (example_request email password d))"
    and "truthy_prim (reg_password (example_request email password d))"
    and "length_less (reg_password (example_request email password d)) 6 = Inr False"
  using assms by (auto simp: example_request_def lit_empty lit_def)

lemma example_createUser_taken:
  "createUser example_collab (createUser_args (example_request ''taken@example.com'' password d)) () =
    (Inl (Failure (str ''auth/email-already-exists'')), ())"
  by (simp add: example_collab_def createUser_args_def example_request_def str_def)

lemma example_createUser_nobody:
  "createUser example_collab (createUser_args (example_request ''nobody'' password d)) () =
    (Inl (Failure (str ''auth/invalid-email'')), ())"
  by (simp add: example_collab_def createUser_args_def example_request_def str_def lit_inj)

lemma example_doc_set_unlucky:
  "doc_set example_collab (get_prop (example_record ''unlucky@example.com'' d) (lit ''uid''))
     (userData_of b (example_record ''unlucky@example.com'' d) t1 t2) () =
   (Inl (Failure (Prim (JNum 14))), ())"
  by (simp add: example_collab_def userData_of_def example_record_def lit_inj)

lemma example_clock: "toISOString example_collab () = (example_time, ())"
  by (simp add: example_collab_def)

text \<open>
  The address the example collaborator has already, the one it finds malformed, and the
  one whose profile document it fails to write.
\<close>

theorem register_conflict_examples:
  "register example_collab (example_request ''taken@example.com'' ''secret1'' JUndefined) start =
     (user_exists,
      \<lparr>world = (),
       calls = [CreateUser (createUser_args (example_request ''taken@example.com'' ''secret1'' JUndefined))]\<rparr>)
   \<and> register example_collab (example_request ''nobody'' ''secret1'' JUndefined) start =
     (registration_failed,
      \<lparr>world = (),
       calls = [CreateUser (createUser_args (example_request ''nobody'' ''secret1'' JUndefined))]\<rparr>)
   \<and> register example_collab (example_request ''unlucky@example.com'' ''secret1'' JUndefined) start =
     (registration_failed,
      \<lparr>world = (),
       calls = [CreateUser (createUser_args (example_request ''unlucky@example.com'' ''secret1'' JUndefined)),
                DocSet (str ''u2'')
                  (userData_of (example_request ''unlucky@example.com'' ''secret1'' JUndefined)
                     (example_record ''unlucky@example.com'' JUndefined) example_time example_time)]\<rparr>)"
proof -
  have taken: "register example_collab (example_request ''taken@example.com'' ''secret1'' JUndefined) start =
     (user_exists,
      \<lparr>world = (),
       calls = [CreateUser (createUser_args (example_request ''taken@example.com'' ''secret1'' JUndefined))]\<rparr>)"
    using register_conflict_and_failures
      [where b = "example_request ''taken@example.com'' ''secret1'' JUndefined" and c = example_collab
         and s = start, OF example_request_valid]
      example_createUser_taken [of "''secret1''" JUndefined]
    by (simp add: start_def)
  have nobody: "register example_collab (example_request ''nobody'' ''secret1'' JUndefined) start =
     (registration_failed,
      \<lparr>world = (),
       calls = [CreateUser (createUser_args (example_request ''nobody'' ''secret1'' JUndefined))]\<rparr>)"
    using register_conflict_and_failures
      [where b = "example_request ''nobody'' ''secret1'' JUndefined" and c = example_collab
         and s = start, OF example_request_valid]
      example_createUser_nobody [of "''secret1''" JUndefined]
    by (simp add: start_def str_def lit_inj)
  have made: "createUser example_collab
      (createUser_args (example_request ''unlucky@example.com'' ''secret1'' JUndefined)) () =
      (Inr (example_record ''unlucky@example.com'' JUndefined), ())"
    by (rule example_createUser_ok) simp_all
  have unlucky: "register example_collab (example_request ''unlucky@example.com'' ''secret1'' JUndefined) start =
     (registration_failed,
      \<lparr>world = (),
       calls = [CreateUser (createUser_args (example_request ''unlucky@example.com'' ''secret1'' JUndefined)),
                DocSet (str ''u2'')
                  (userData_of (example_request ''unlucky@example.com'' ''secret1'' JUndefined)
                     (example_record ''unlucky@example.com'' JUndefined) example_time example_time)]\<rparr>)"
    using register_conflict_and_failures
      [where b = "example_request ''unlucky@example.com'' ''secret1'' JUndefined" and c = example_collab
         and s = start, OF example_request_valid]
      made example_clock
      example_doc_set_unlucky [of JUndefined
        "example_request ''unlucky@example.com'' ''secret1'' JUndefined" example_time example_time]
    by (simp add: start_def str_def example_record_def)
  from taken nobody unlucky show ?thesis
    by simp
qed

lemma createUser_args_fields:
  "get_prop (createUser_args b) (lit ''displayName'') = Prim (or_prim (reg_displayName b) JUndefined)"
  "get_prop (createUser_args b) (lit ''photoURL'') = Prim (or_prim (reg_photoURL b) JUndefined)"
  by (simp_all add: createUser_args_def lit_inj)

lemma userData_of_fields:
  "get_prop (userData_of b u t1 t2) (lit ''displayName'') = Prim (or_prim (reg_displayName b) JNull)"
  "get_prop (userData_of b u t1 t2) (lit ''photoURL'') = Prim (or_prim (reg_photoURL b) JNull)"
  by (simp_all add: userData_of_def lit_inj)

lemma register_created_calls:
  assumes "status (fst (register c b s)) = 201"
  shows "\<exists>u t1 t2. calls (snd (register c b s)) =
    calls s @ [CreateUser (createUser_args b),
               DocSet (get_prop u (lit ''uid'')) (userData_of b u t1 t2)]"
proof (cases rule: register_runs [where b = b and c = c and s = s])
  case missing
  with assms show ?thesis by (simp add: register_statuses)
next
  case short
  with assms show ?thesis by (simp add: register_statuses)
next
  case (rejected e w1)
  with assms show ?thesis by (simp add: register_statuses split: if_splits)
next
  case (write_failed u w1 t1 w2 t2 w3 e w4)
  with assms show ?thesis by (simp add: register_statuses split: if_splits)
next
  case (created u w1 t1 w2 t2 w3 w4)
  then have "calls (snd (register c b s)) =
    calls s @ [CreateUser (createUser_args b),
               DocSet (get_prop u (lit ''uid'')) (userData_of b u t1 t2)]"
    by simp
  then show ?thesis by blast
qed

text \<open>
  C10, as the code has it. On a \<open>POST /auth/register\<close> request that succeeds (201), the
  calls are \<open>auth.createUser\<close> and the write of the profile document, and for each of
  \<open>displayName\<close> and \<open>photoURL\<close>: a non-empty string passes unchanged to both; when
  the field is absent or the empty string, the principal is created with the field
  undefined and the profile document stores null.
\<close>

theorem register_profile_fields:
  "status (fst (register c b s)) = 201 \<longrightarrow>
     (\<exists>u t1 t2.
        calls (snd (register c b s)) =
          calls s @ [CreateUser (createUser_args b),
                     DocSet (get_prop u (lit ''uid'')) (userData_of b u t1 t2)]
        \<and> (\<forall>n. n \<noteq> [] \<and> reg_displayName b = JStr n \<longrightarrow>
              get_prop (createUser_args b) (lit ''displayName'') = Prim (JStr n)
              \<and> get_prop (userData_of b u t1 t2) (lit ''displayName'') = Prim (JStr n))
        \<and> (\<forall>n. n \<noteq> [] \<and> reg_photoURL b = JStr n \<longrightarrow>
              get_prop (createUser_args b) (lit ''photoURL'') = Prim (JStr n)
              \<and> get_prop (userData_of b u t1 t2) (lit ''photoURL'') = Prim (JStr n))
        \<and> (reg_displayName b = JUndefined \<or> reg_displayName b = JStr [] \<longrightarrow>
              get_prop (createUser_args b) (lit ''displayName'') = undefined_val
              \<and> get_prop (userData_of b u t1 t2) (lit ''displayName'') = Prim JNull)
        \<and> (reg_photoURL b = JUndefined \<or> reg_photoURL b = JStr [] \<longrightarrow>
              get_prop (createUser_args b) (lit ''photoURL'') = undefined_val
              \<and> get_prop (userData_of b u t1 t2) (lit ''photoURL'') = Prim JNull))"
proof
  assume "status (fst (register c b s)) = 201"
  from register_created_calls [OF this] obtain u t1 t2 where
    "calls (snd (register c b s)) =
      calls s @ [CreateUser (createUser_args b),
                 DocSet (get_prop u (lit ''uid'')) (userData_of b u t1 t2)]"
    by blast
  then show "\<exists>u t1 t2.
        calls (snd (register c b s)) =
          calls s @ [CreateUser (createUser_args b),
                     DocSet (get_prop u (lit ''uid'')) (userData_of b u t1 t2)]
        \<and> (\<forall>n. n \<noteq> [] \<and> reg_displayName b = JStr n \<longrightarrow>
              get_prop (createUser_args b) (lit ''displayName'') = Prim (JStr n)
              \<and> get_prop (userData_of b u t1 t2) (lit ''displayName'') = Prim (JStr n))
        \<and> (\<forall>n. n \<noteq> [] \<and> reg_photoURL b = JStr n \<longrightarrow>
              get_prop (createUser_args b) (lit ''photoURL'') = Prim (JStr n)
              \<and> get_prop (userData_of b u t1 t2) (lit ''photoURL'') = Prim (JStr n))
        \<and> (reg_displayName b = JUndefined \<or> reg_displayName b = JStr [] \<longrightarrow>
              get_prop (createUser_args b) (lit ''displayName'') = undefined_val
              \<and> get_prop (userData_of b u t1 t2) (lit ''displayName'') = Prim JNull)
        \<and> (reg_photoURL b = JUndefined \<or> reg_photoURL b = JStr [] \<longrightarrow>
              get_prop (createUser_args b) (lit ''photoURL'') = undefined_val
              \<and> get_prop (userData_of b u t1 t2) (lit ''photoURL'') = Prim JNull)"
    by (auto simp: createUser_args_fields userData_of_fields or_prim_def)
qed

text \<open>A registration with the display name Ann and no photo.\<close>

theorem register_profile_fields_example:
  "status (fst (register example_collab
      (example_request ''new@example.com'' ''secret1'' (JStr (lit ''Ann''))) start)) = 201
   \<and> (\<exists>u t1 t2.
        calls (snd (register example_collab
          (example_request ''new@example.com'' ''secret1'' (JStr (lit ''Ann''))) start)) =
          [CreateUser (createUser_args (example_request ''new@example.com'' ''secret1'' (JStr (lit ''Ann'')))),
           DocSet (get_prop u (lit ''uid''))
             (userData_of (example_request ''new@example.com'' ''secret1'' (JStr (lit ''Ann''))) u t1 t2)]
        \<and> get_prop (createUser_args (example_request ''new@example.com'' ''secret1'' (JStr (lit ''Ann''))))
            (lit ''displayName'') = str ''Ann''
        \<and> get_prop (userData_of (example_request ''new@example.com'' ''secret1'' (JStr (lit ''Ann''))) u t1 t2)
            (lit ''displayName'') = str ''Ann''
        \<and> get_prop (userData_of (example_request ''new@example.com'' ''secret1'' (JStr (lit ''Ann''))) u t1 t2)
            (lit ''photoURL'') = Prim JNull)"
proof -
  let ?b = "example_request ''new@example.com'' ''secret1'' (JStr (lit ''Ann''))"
  have created: "status (fst (register example_collab ?b start)) = 201"
    by (simp add: example_register_created register_statuses)
  have name: "reg_displayName ?b = JStr (lit ''Ann'')" "lit ''Ann'' \<noteq> []"
    and photo: "reg_photoURL ?b = JUndefined"
    by (simp_all add: example_request_def lit_empty)
  from register_profile_fields [where c = example_collab and b = ?b and s = start] created name photo
  have "\<exists>u t1 t2.
        calls (snd (register example_collab ?b start)) =
          [CreateUser (createUser_args ?b), DocSet (get_prop u (lit ''uid'')) (userData_of ?b u t1 t2)]
        \<and> get_prop (createUser_args ?b) (lit ''displayName'') = str ''Ann''
        \<and> get_prop (userData_of ?b u t1 t2) (lit ''displayName'') = str ''Ann''
        \<and> get_prop (userData_of ?b u t1 t2) (lit ''photoURL'') = Prim JNull"
    by (simp add: start_def str_def) blast
  with created show ?thesis
    by simp
qed

text \<open>
  C10 as stated fails for the empty string: a registration that supplies the display name
  \<open>''\<close> succeeds, the principal is created with \<open>displayName\<close> undefined, and the
  profile document stores null, not the supplied value (\<open>displayName || undefined\<close>,
  \<open>displayName || null\<close>).
\<close>

theorem register_empty_displayName:
  "status (fst (register example_collab
      (example_request ''new@example.com'' ''secret1'' (JStr [])) start)) = 201
   \<and> reg_displayName (example_request ''new@example.com'' ''secret1'' (JStr [])) = JStr []
   \<and> calls (snd (register example_collab
        (example_request ''new@example.com'' ''secret1'' (JStr [])) start)) =
       [CreateUser (createUser_args (example_request ''new@example.com'' ''secret1'' (JStr []))),
        DocSet (str ''u2'')
          (userData_of (example_request ''new@example.com'' ''secret1'' (JStr []))
             (example_record ''new@example.com'' (JStr [])) example_time example_time)]
   \<and> get_prop (createUser_args (example_request ''new@example.com'' ''secret1'' (JStr [])))
        (lit ''displayName'') = undefined_val
   \<and> get_prop (userData_of (example_request ''new@example.com'' ''secret1'' (JStr []))
          (example_record ''new@example.com'' (JStr [])) example_time example_time)
        (lit ''displayName'') = Prim JNull
   \<and> get_prop (userData_of (example_request ''new@example.com'' ''secret1'' (JStr []))
          (example_record ''new@example.com'' (JStr [])) example_time example_time)
        (lit ''displayName'') \<noteq> Prim (JStr [])"
proof -
  have "reg_displayName (example_request ''new@example.com'' ''secret1'' (JStr [])) = JStr []"
    by (simp add: example_request_def)
  then show ?thesis
    by (simp add: example_register_created register_statuses createUser_args_fields
        userData_of_fields or_prim_def)
qed

section \<open>Profile update: the claims\<close>












lemma put_user_no_auth:
  assumes "toISOString c (world s) = (t, w0)" and "authUpdates_of req_body = []"
  shows "put_user c user req_body s =
    (case doc_update c (get_prop user (lit ''uid'')) (updates_of req_body t) w0 of
       (Inl e, w2) \<Rightarrow>
         (update_failed,
          \<lparr>world = w2,
           calls = calls s @ [DocUpdate (get_prop user (lit ''uid'')) (updates_of req_body t)]\<rparr>)
     | (Inr ok, w2) \<Rightarrow>
         (case doc_get c (get_prop user (lit ''uid'')) w2 of
            (Inl e, w3) \<Rightarrow>
              (update_failed,
               \<lparr>world = w3,
                calls = calls s @ [DocUpdate (get_prop user (lit ''uid'')) (updates_of req_body t),
                                   DocGet (get_prop user (lit ''uid''))]\<rparr>)
          | (Inr userDoc, w3) \<Rightarrow>
              (profile_updated userDoc,
               \<lparr>world = w3,
                calls = calls s @ [DocUpdate (get_prop user (lit ''uid'')) (updates_of req_body t),
                                   DocGet (get_prop user (lit ''uid''))]\<rparr>)))"
  using assms
  by (simp add: put_user_def put_user_try_def now_def perform_def Let_def
      split: prod.splits sum.splits)

lemma put_user_with_auth:
  assumes "toISOString c (world s) = (t, w0)" and "authUpdates_of req_body \<noteq> []"
  shows "put_user c user req_body s =
    (case updateUser c (get_prop user (lit ''uid'')) (authUpdates_of req_body) w0 of
       (Inl e, w1) \<Rightarrow>
         (update_failed,
          \<lparr>world = w1,
           calls = calls s @ [UpdateUser (get_prop user (lit ''uid'')) (authUpdates_of req_body)]\<rparr>)
     | (Inr ok, w1) \<Rightarrow>
    (case doc_update c (get_prop user (lit ''uid'')) (updates_of req_body t) w1 of
       (Inl e, w2) \<Rightarrow>
         (update_failed,
          \<lparr>world = w2,
           calls = calls s @ [UpdateUser (get_prop user (lit ''uid'')) (authUpdates_of req_body),
                              DocUpdate (get_prop user (lit ''uid'')) (updates_of req_body t)]\<rparr>)
     | (Inr ok, w2) \<Rightarrow>
         (case doc_get c (get_prop user (lit ''uid'')) w2 of
            (Inl e, w3) \<Rightarrow>
              (update_failed,
               \<lparr>world = w3,
                calls = calls s @ [UpdateUser (get_prop user (lit ''uid'')) (authUpdates_of req_body),
                                   DocUpdate (get_prop user (lit ''uid'')) (updates_of req_body t),
                                   DocGet (get_prop user (lit ''uid''))]\<rparr>)
          | (Inr userDoc, w3) \<Rightarrow>
              (profile_updated userDoc,
               \<lparr>world = w3,
                calls = calls s @ [UpdateUser (get_prop user (lit ''uid'')) (authUpdates_of req_body),
                                   DocUpdate (get_prop user (lit ''uid'')) (updates_of req_body t),
                                   DocGet (get_prop user (lit ''uid''))]\<rparr>))))"
  using assms
  by (simp add: put_user_def put_user_try_def now_def perform_def Let_def
      split: prod.splits sum.splits)

lemma profile_updated_status: "status (profile_updated userDoc) = 200"
  by (simp add: profile_updated_def json_def status_json_def)

















section \<open>Token verification: the claims\<close>

lemma verify_token_missing:
  "\<not> truthy (get_prop req_body (lit ''idToken'')) \<Longrightarrow> verify_token c req_body s = (missing_token, s)"
  by (simp add: verify_token_def verify_token_try_def)

lemma verify_token_called:
  assumes "truthy (get_prop req_body (lit ''idToken''))"
  shows "verify_token c req_body s =
    (case verifyIdToken c (get_prop req_body (lit ''idToken'')) (world s) of
       (Inl e, w') \<Rightarrow>
         (token_invalid,
          \<lparr>world = w', calls = calls s @ [VerifyIdToken (get_prop req_body (lit ''idToken''))]\<rparr>)
     | (Inr decodedToken, w') \<Rightarrow>
         (token_valid decodedToken,
          \<lparr>world = w', calls = calls s @ [VerifyIdToken (get_prop req_body (lit ''idToken''))]\<rparr>))"
  using assms
  by (simp add: verify_token_def verify_token_try_def perform_def Let_def split: prod.splits sum.splits)

lemma verify_token_statuses:
  "status missing_token = 400" "status token_invalid = 401" "status (token_valid d) = 200"
  "status verification_failed = 500"
  by (simp_all add: missing_token_def token_invalid_def token_valid_def verification_failed_def
      json_def status_json_def)

lemma token_invalid_body:
  "get_prop (body token_invalid) (lit ''valid'') = Prim (JBool False)"
  "get_prop (body token_invalid) (lit ''error'') = str ''Invalid token''"
  "get_prop (body token_invalid) (lit ''message'') = str ''The provided token is invalid or expired''"
  by (simp_all add: token_invalid_def status_json_def lit_inj)

lemma token_valid_body:
  "get_prop (body (token_valid d)) (lit ''valid'') = Prim (JBool True)"
  "get_prop (body (token_valid d)) (lit ''user'') =
     Obj [(lit ''uid'', get_prop d (lit ''uid'')),
          (lit ''email'', get_prop d (lit ''email'')),
          (lit ''emailVerified'', get_prop d (lit ''email_verified''))]"
  by (simp_all add: token_valid_def json_def status_json_def lit_inj)

lemma verify_token_responses:
  "fst (verify_token c req_body s) = missing_token
   \<or> fst (verify_token c req_body s) = token_invalid
   \<or> (\<exists>d. fst (verify_token c req_body s) = token_valid d)"
proof (cases "truthy (get_prop req_body (lit ''idToken''))")
  case True
  then show ?thesis
    by (auto simp: verify_token_called split: prod.splits sum.splits)
next
  case False
  then show ?thesis by (simp add: verify_token_missing)
qed

text \<open>
  C6. \<open>POST /auth/verify-token\<close>, on the body's \<open>idToken\<close>: when it is missing
  (undefined), the empty string or any other falsy value, the response is 400 and no call
  is made; when \<open>auth.verifyIdToken\<close> rejects, with whatever error, the response is 401
  with \<open>valid: false\<close>, an \<open>error\<close> and a \<open>message\<close>; when it resolves, the
  response is 200 with \<open>valid: true\<close> and a \<open>user\<close> made of the decoded token's
  \<open>uid\<close>, \<open>email\<close> and \<open>email_verified\<close>. No outcome of the verification call is
  answered with a 500.
\<close>

theorem verify_token_outcomes:
  "(\<not> truthy (get_prop req_body (lit ''idToken'')) \<longrightarrow>
      verify_token c req_body s = (missing_token, s))
   \<and> (\<forall>e w'. truthy (get_prop req_body (lit ''idToken''))
         \<and> verifyIdToken c (get_prop req_body (lit ''idToken'')) (world s) = (Inl e, w') \<longrightarrow>
       verify_token c req_body s =
         (token_invalid,
          \<lparr>world = w', calls = calls s @ [VerifyIdToken (get_prop req_body (lit ''idToken''))]\<rparr>))
   \<and> (\<forall>decodedToken w'. truthy (get_prop req_body (lit ''idToken''))
         \<and> verifyIdToken c (get_prop req_body (lit ''idToken'')) (world s) = (Inr decodedToken, w') \<longrightarrow>
       verify_token c req_body s =
         (token_valid decodedToken,
          \<lparr>world = w', calls = calls s @ [VerifyIdToken (get_prop req_body (lit ''idToken''))]\<rparr>))
   \<and> status (fst (verify_token c req_body s)) \<noteq> 500
   \<and> truthy undefined_val = False
   \<and> truthy (Prim (JStr [])) = False
   \<and> status missing_token = 400
   \<and> status token_invalid = 401
   \<and> get_prop (body token_invalid) (lit ''valid'') = Prim (JBool False)
   \<and> get_prop (body token_invalid) (lit ''error'') = str ''Invalid token''
   \<and> get_prop (body token_invalid) (lit ''message'') = str ''The provided token is invalid or expired''
   \<and> (\<forall>d. status (token_valid d) = 200
         \<and> get_prop (body (token_valid d)) (lit ''valid'') = Prim (JBool True)
         \<and> get_prop (body (token_valid d)) (lit ''user'') =
             Obj [(lit ''uid'', get_prop d (lit ''uid'')),
                  (lit ''email'', get_prop d (lit ''email'')),
                  (lit ''emailVerified'', get_prop d (lit ''email_verified''))])"
proof -
  have never_500: "status (fst (verify_token c req_body s)) \<noteq> 500"
    using verify_token_responses [of c req_body s]
    by (auto simp: verify_token_statuses)
  then show ?thesis
    by (intro conjI allI impI)
      (simp_all add: verify_token_missing verify_token_called verify_token_statuses
        token_invalid_body token_valid_body)
qed

text \<open>No token, an empty token, a token the collaborator refuses, and the one it knows.\<close>

theorem verify_token_examples:
  "verify_token example_collab [] start = (missing_token, start)
   \<and> verify_token example_collab [(lit ''idToken'', str [])] start = (missing_token, start)
   \<and> verify_token example_collab [(lit ''idToken'', str ''bad'')] start =
       (token_invalid, \<lparr>world = (), calls = [VerifyIdToken (str ''bad'')]\<rparr>)
   \<and> verify_token example_collab [(lit ''idToken'', str ''good'')] start =
       (token_valid example_token, \<lparr>world = (), calls = [VerifyIdToken (str ''good'')]\<rparr>)"
proof -
  note example = verify_token_outcomes [where c = example_collab and s = start]
  have absent: "verify_token example_collab [] start = (missing_token, start)"
    using example [where req_body = "[]"] by simp
  have empty: "verify_token example_collab [(lit ''idToken'', str [])] start = (missing_token, start)"
    using example [where req_body = "[(lit ''idToken'', str [])]"] by (simp add: str_def lit_def)
  have bad: "verify_token example_collab [(lit ''idToken'', str ''bad'')] start =
       (token_invalid, \<lparr>world = (), calls = [VerifyIdToken (str ''bad'')]\<rparr>)"
    using example [where req_body = "[(lit ''idToken'', str ''bad'')]"]
    by (simp add: str_def lit_empty lit_inj example_collab_def start_def)
  have good: "verify_token example_collab [(lit ''idToken'', str ''good'')] start =
       (token_valid example_token, \<lparr>world = (), calls = [VerifyIdToken (str ''good'')]\<rparr>)"
    using example [where req_body = "[(lit ''idToken'', str ''good'')]"]
    by (simp add: str_def lit_empty lit_inj example_collab_def start_def)
  from absent empty bad good show ?thesis
    by simp
qed

section \<open>Failure bodies: the claims\<close>

lemma envelopes:
  "failure_envelope no_token" "failure_envelope invalid_token" "failure_envelope authentication_error"
  "failure_envelope missing_fields" "failure_envelope password_too_short"
  "failure_envelope user_exists" "failure_envelope registration_failed"
  "failure_envelope user_not_found" "failure_envelope get_user_failed"
  "failure_envelope update_failed" "failure_envelope delete_failed"
  "failure_envelope missing_token" "failure_envelope token_invalid"
  "failure_envelope verification_failed"
  by (simp_all add: failure_envelope_def no_token_def invalid_token_def authentication_error_def
      missing_fields_def password_too_short_def user_exists_def registration_failed_def
      user_not_found_def get_user_failed_def update_failed_def delete_failed_def
      missing_token_def token_invalid_def verification_failed_def status_json_def str_def lit_inj)

lemma register_responses:
  "fst (register c b s) = missing_fields \<or> fst (register c b s) = password_too_short
   \<or> fst (register c b s) = user_exists \<or> fst (register c b s) = registration_failed
   \<or> (\<exists>u. fst (register c b s) = user_created u)"
  by (cases rule: register_runs [where b = b and c = c and s = s]) auto

lemma get_user_responses:
  "fst (get_user c user s) = get_user_failed \<or> fst (get_user c user s) = user_not_found
   \<or> (\<exists>d. fst (get_user c user s) = json [(lit ''user'', d)])"
  by (auto simp: get_user_def get_user_try_def Let_def perform_def split: prod.splits sum.splits)

lemma delete_user_responses:
  "fst (delete_user c user s) = delete_failed
   \<or> fst (delete_user c user s) = json [(lit ''message'', str ''Account deleted successfully'')]"
  by (auto simp: delete_user_def delete_user_try_def Let_def perform_def split: prod.splits sum.splits)

lemma put_user_responses:
  "fst (put_user c user req_body s) = update_failed
   \<or> (\<exists>userDoc. fst (put_user c user req_body s) = profile_updated userDoc)"
proof -
  obtain t w0 where clock: "toISOString c (world s) = (t, w0)"
    by (cases "toISOString c (world s)")
  show ?thesis
  proof (cases "authUpdates_of req_body = []")
    case True
    show ?thesis
      by (auto simp: put_user_no_auth [OF clock True] split: prod.splits sum.splits)
  next
    case False
    show ?thesis
      by (auto simp: put_user_with_auth [OF clock False] split: prod.splits sum.splits)
  qed
qed

lemma success_statuses:
  "status (json obj) = 200"
  by (simp add: json_def status_json_def)

lemma protected_responses:
  "fst (protected c handler authHeader s) = no_token
   \<or> fst (protected c handler authHeader s) = invalid_token
   \<or> fst (protected c handler authHeader s) = authentication_error
   \<or> (\<exists>user s'. fst (protected c handler authHeader s) = fst (handler user s'))"
proof (cases "verifyToken c authHeader s")
  case (Pair g s')
  show ?thesis
  proof (cases g)
    case (Responded r)
    with Pair verifyToken_Responded [of c authHeader s r s'] show ?thesis
      by (auto simp: protected_def)
  next
    case (Next user)
    with Pair show ?thesis
      by (auto simp: protected_def)
  qed
qed

lemma post_palindrome_responses:
  "post_palindrome req_body = status_json 400 [(lit ''error'', str ''Please provide a word'')]
   \<or> post_palindrome req_body = error_middleware TypeError
   \<or> (\<exists>w p. post_palindrome req_body = json [(lit ''original'', w), (lit ''palindrome'', p)])"
proof (cases "truthy (get_prop req_body (lit ''word''))")
  case False
  then show ?thesis
    by (simp add: post_palindrome_def post_palindrome_handler_def)
next
  case True
  show ?thesis
  proof (cases "call_split (get_prop req_body (lit ''word'')) []")
    case (Inl e)
    then have "e = TypeError"
      by (cases "(get_prop req_body (lit ''word''), [] :: jsstring)" rule: call_split.cases) auto
    with True Inl show ?thesis
      by (simp add: post_palindrome_def post_palindrome_handler_def)
  next
    case (Inr units)
    with True have "post_palindrome req_body =
        json [(lit ''original'', get_prop req_body (lit ''word'')),
              (lit ''palindrome'', Prim (JStr (join (reverse units) [])))]"
      by (simp add: post_palindrome_def post_palindrome_handler_def Let_def)
    then show ?thesis by blast
  qed
qed

text \<open>
  C7, as the code has it. Every response with a status of 400 or more that the gate and
  the \<open>/auth\<close> routes send has a string \<open>error\<close> and a string \<open>message\<close>. The
  failure responses of \<open>POST /palindrome\<close> and of the error-handling middleware have a
  string \<open>error\<close> and no \<open>message\<close>.
\<close>

theorem failure_bodies:
  "(400 \<le> status (fst (register c b s)) \<longrightarrow> failure_envelope (fst (register c b s)))
   \<and> (400 \<le> status (fst (verify_token c token_body s)) \<longrightarrow>
        failure_envelope (fst (verify_token c token_body s)))
   \<and> (400 \<le> status (fst (route_get_user c authHeader s)) \<longrightarrow>
        failure_envelope (fst (route_get_user c authHeader s)))
   \<and> (400 \<le> status (fst (route_put_user c authHeader update_body s)) \<longrightarrow>
        failure_envelope (fst (route_put_user c authHeader update_body s)))
   \<and> (400 \<le> status (fst (route_delete_user c authHeader s)) \<longrightarrow>
        failure_envelope (fst (route_delete_user c authHeader s)))
   \<and> (400 \<le> status (post_palindrome word_body) \<longrightarrow>
        is_string (get_prop (body (post_palindrome word_body)) (lit ''error''))
        \<and> \<not> has_prop (body (post_palindrome word_body)) (lit ''message''))
   \<and> status (error_middleware err) = 500
   \<and> is_string (get_prop (body (error_middleware err)) (lit ''error''))
   \<and> \<not> has_prop (body (error_middleware err)) (lit ''message'')"
proof -
  have reg: "failure_envelope (fst (register c b s))" if "400 \<le> status (fst (register c b s))"
    using register_responses [of c b s] that
    by (auto simp: envelopes register_statuses)
  have ver: "failure_envelope (fst (verify_token c token_body s))"
    if "400 \<le> status (fst (verify_token c token_body s))"
    using verify_token_responses [of c token_body s] that
    by (auto simp: envelopes verify_token_statuses)
  have get: "failure_envelope (fst (route_get_user c authHeader s))"
    if "400 \<le> status (fst (route_get_user c authHeader s))"
  proof -
    from protected_responses [of c "get_user c" authHeader s] that
    consider "failure_envelope (fst (route_get_user c authHeader s))"
      | user s' where "fst (route_get_user c authHeader s) = fst (get_user c user s')"
      by (auto simp: route_get_user_def envelopes)
    then show ?thesis
    proof cases
      case 1
      then show ?thesis .
    next
      case (2 user s')
      with get_user_responses [of c user s'] that show ?thesis
        by (auto simp: envelopes success_statuses)
    qed
  qed
  have put: "failure_envelope (fst (route_put_user c authHeader update_body s))"
    if "400 \<le> status (fst (route_put_user c authHeader update_body s))"
  proof -
    from protected_responses [of c "\<lambda>user. put_user c user update_body" authHeader s] that
    consider "failure_envelope (fst (route_put_user c authHeader update_body s))"
      | user s' where "fst (route_put_user c authHeader update_body s) = fst (put_user c user update_body s')"
      by (auto simp: route_put_user_def envelopes)
    then show ?thesis
    proof cases
      case 1
      then show ?thesis .
    next
      case (2 user s')
      with put_user_responses [of c user update_body s'] that show ?thesis
        by (auto simp: envelopes profile_updated_status)
    qed
  qed
  have del: "failure_envelope (fst (route_delete_user c authHeader s))"
    if "400 \<le> status (fst (route_delete_user c authHeader s))"
  proof -
    from protected_responses [of c "delete_user c" authHeader s] that
    consider "failure_envelope (fst (route_delete_user c authHeader s))"
      | user s' where "fst (route_delete_user c authHeader s) = fst (delete_user c user s')"
      by (auto simp: route_delete_user_def envelopes)
    then show ?thesis
    proof cases
      case 1
      then show ?thesis .
    next
      case (2 user s')
      with delete_user_responses [of c user s'] that show ?thesis
        by (auto simp: envelopes success_statuses)
    qed
  qed
  have pal: "is_string (get_prop (body (post_palindrome word_body)) (lit ''error''))
        \<and> \<not> has_prop (body (post_palindrome word_body)) (lit ''message'')"
    if "400 \<le> status (post_palindrome word_body)"
    using post_palindrome_responses [of word_body] that
    by (auto simp: error_middleware_def status_json_def json_def str_def lit_inj)
  have mid: "status (error_middleware err) = 500
      \<and> is_string (get_prop (body (error_middleware err)) (lit ''error''))
      \<and> \<not> has_prop (body (error_middleware err)) (lit ''message'')"
    by (simp add: error_middleware_def status_json_def str_def lit_inj)
  from reg ver get put del pal mid show ?thesis
    by blast
qed

text \<open>
  C7 as stated fails on \<open>POST /palindrome\<close>: an empty body is answered 400 with
  \<open>{error: 'Please provide a word'}\<close>, and a \<open>word\<close> that is a number ends in the
  error-handling middleware's 500 \<open>{error: 'Something went wrong!'}\<close>; neither body has
  a \<open>message\<close>.
\<close>

theorem palindrome_failure_without_message:
  "post_palindrome [] = status_json 400 [(lit ''error'', str ''Please provide a word'')]
   \<and> status (post_palindrome []) = 400
   \<and> \<not> has_prop (body (post_palindrome [])) (lit ''message'')
   \<and> \<not> failure_envelope (post_palindrome [])
   \<and> post_palindrome [(lit ''word'', Prim (JNum 5))] =
       status_json 500 [(lit ''error'', str ''Something went wrong!'')]
   \<and> \<not> failure_envelope (post_palindrome [(lit ''word'', Prim (JNum 5))])"
  by (simp add: post_palindrome_def post_palindrome_handler_def error_middleware_def
      status_json_def failure_envelope_def lit_inj)

text \<open>One failure of each endpoint, on the example collaborator.\<close>

theorem failure_bodies_examples:
  "status (fst (register example_collab (example_request ''new@example.com'' ''abcde'' JUndefined) start)) = 400
   \<and> failure_envelope (fst (register example_collab (example_request ''new@example.com'' ''abcde'' JUndefined) start))
   \<and> status (fst (verify_token example_collab [(lit ''idToken'', str ''bad'')] start)) = 401
   \<and> failure_envelope (fst (verify_token example_collab [(lit ''idToken'', str ''bad'')] start))
   \<and> status (fst (route_get_user example_collab undefined_val start)) = 401
   \<and> failure_envelope (fst (route_get_user example_collab undefined_val start))
   \<and> status (fst (route_put_user example_collab undefined_val [] start)) = 401
   \<and> failure_envelope (fst (route_put_user example_collab undefined_val [] start))
   \<and> status (fst (route_delete_user example_collab undefined_val start)) = 401
   \<and> failure_envelope (fst (route_delete_user example_collab undefined_val start))
   \<and> status (post_palindrome []) = 400
   \<and> is_string (get_prop (body (post_palindrome [])) (lit ''error''))
   \<and> \<not> has_prop (body (post_palindrome [])) (lit ''message'')"
proof -
  have short: "register example_collab (example_request ''new@example.com'' ''abcde'' JUndefined) start =
      (password_too_short, start)"
    by (rule register_short [where p = "lit ''abcde''"]) (simp_all add: example_request_def lit_def)
  have bad: "fst (verify_token example_collab [(lit ''idToken'', str ''bad'')] start) = token_invalid"
    by (simp add: verify_token_called str_def lit_empty lit_inj example_collab_def)
  have gate: "fst (route_get_user example_collab undefined_val start) = no_token"
    "fst (route_put_user example_collab undefined_val [] start) = no_token"
    "fst (route_delete_user example_collab undefined_val start) = no_token"
    by (simp_all add: route_get_user_def route_put_user_def route_delete_user_def protected_def
        verifyToken_falsy)
  have word: "post_palindrome [] = status_json 400 [(lit ''error'', str ''Please provide a word'')]"
    by (simp add: post_palindrome_def post_palindrome_handler_def)
  have statuses: "status (fst (register example_collab (example_request ''new@example.com'' ''abcde'' JUndefined) start)) = 400"
    "status (fst (verify_token example_collab [(lit ''idToken'', str ''bad'')] start)) = 401"
    "status (fst (route_get_user example_collab undefined_val start)) = 401"
    "status (fst (route_put_user example_collab undefined_val [] start)) = 401"
    "status (fst (route_delete_user example_collab undefined_val start)) = 401"
    "status (post_palindrome []) = 400"
    by (simp_all add: short bad gate word register_statuses verify_token_statuses gate_responses
        status_json_def)
  from failure_bodies [where c = example_collab and s = start
      and b = "example_request ''new@example.com'' ''abcde'' JUndefined"
      and token_body = "[(lit ''idToken'', str ''bad'')]"
      and authHeader = undefined_val and update_body = "[]" and word_body = "[]"]
    statuses
  show ?thesis
    by simp
qed

end
